theory Spec2Isabelle
  imports Main "HOL-Library.AList"
begin

section \<open>Python values, errors and strings\<close>

text \<open>
  The exceptions the modelled code raises or catches. A function that can raise returns
  \<open>error + 'a\<close>, with \<open>Inl\<close> for the exception.
\<close>

datatype error =
    ValueError | TypeError | AttributeError | KeyError | OverflowError
  | UnknownTimeZoneError | TelegramError | JobLookupError

text \<open>
  A cell of a sheet row as \<open>get_all_records\<close> returns it (an integer where the text of
  the cell reads as one, a string otherwise), and a value of an \<open>updates\<close> dictionary.
\<close>

datatype pyval = PyNone | PyBool bool | PyInt int | PyStr string

definition digit_char :: "nat \<Rightarrow> char" where
  "digit_char n = ''0123456789'' ! n"

fun str_nat :: "nat \<Rightarrow> string" where
  "str_nat n = (if n < 10 then [digit_char n] else str_nat (n div 10) @ [digit_char (n mod 10)])"

declare str_nat.simps [simp del]

definition str_int :: "int \<Rightarrow> string" where
  "str_int i = (if i < 0 then CHR ''-'' # str_nat (nat (- i)) else str_nat (nat i))"

text \<open>Python's \<open>str(v)\<close>, also what an f-string writes for \<open>{v}\<close>.\<close>

fun py_str :: "pyval \<Rightarrow> string" where
  "py_str PyNone = ''None''"
| "py_str (PyBool b) = (if b then ''True'' else ''False'')"
| "py_str (PyInt i) = str_int i"
| "py_str (PyStr s) = s"

text \<open>Python's \<open>==\<close> on these values: a bool is the integer 0 or 1.\<close>

fun py_eq :: "pyval \<Rightarrow> pyval \<Rightarrow> bool" where
  "py_eq (PyBool b) (PyInt i) = ((if b then 1 else 0) = i)"
| "py_eq (PyInt i) (PyBool b) = (i = (if b then 1 else 0))"
| "py_eq a b = (a = b)"

text \<open>Python's truth value of an object (\<open>not v\<close> is its negation).\<close>

fun truthy :: "pyval \<Rightarrow> bool" where
  "truthy PyNone = False"
| "truthy (PyBool b) = b"
| "truthy (PyInt i) = (i \<noteq> 0)"
| "truthy (PyStr s) = (s \<noteq> [])"

text \<open>
  A character is a code point below 256; higher code points are not modelled. The blanks
  of \<open>str.strip()\<close> are the characters \<open>str.isspace()\<close> accepts: tab to carriage
  return, the separators 0x1c to 0x1f, space, 0x85 and 0xa0.
\<close>

definition is_space :: "char \<Rightarrow> bool" where
  "is_space c = (c = CHR '' '' \<or> (9 \<le> (of_char c :: nat) \<and> (of_char c :: nat) \<le> 13)
                 \<or> (28 \<le> (of_char c :: nat) \<and> (of_char c :: nat) \<le> 31)
                 \<or> (of_char c :: nat) = 133 \<or> (of_char c :: nat) = 160)"

definition strip :: "string \<Rightarrow> string" where
  "strip s = rev (dropWhile is_space (rev (dropWhile is_space s)))"

text \<open>
  The blanks \<open>int()\<close> skips around a literal. It leaves ASCII characters as they are and
  skips only C whitespace among them (tab to carriage return, and space), so 0x1c to 0x1f
  make the literal invalid; the non-ASCII blanks 0x85 and 0xa0 are first turned into
  spaces.
\<close>

definition is_int_space :: "char \<Rightarrow> bool" where
  "is_int_space c = (c = CHR '' '' \<or> (9 \<le> (of_char c :: nat) \<and> (of_char c :: nat) \<le> 13)
                     \<or> (of_char c :: nat) = 133 \<or> (of_char c :: nat) = 160)"

definition int_strip :: "string \<Rightarrow> string" where
  "int_strip s = rev (dropWhile is_int_space (rev (dropWhile is_int_space s)))"

definition is_digit :: "char \<Rightarrow> bool" where
  "is_digit c = (48 \<le> (of_char c :: nat) \<and> (of_char c :: nat) \<le> 57)"

definition digit_val :: "char \<Rightarrow> nat" where
  "digit_val c = of_char c - 48"

text \<open>
  The digits of an integer literal as \<open>int()\<close> reads them: at least one digit, single
  underscores allowed between digits only. The accumulator is the value read so far; the
  flag says whether the previous character was a digit.
\<close>

fun parse_digits :: "nat \<Rightarrow> bool \<Rightarrow> string \<Rightarrow> nat option" where
  "parse_digits acc prev [] = (if prev then Some acc else None)"
| "parse_digits acc prev (c # cs) =
     (if is_digit c then parse_digits (10 * acc + digit_val c) True cs
      else if c = CHR ''_'' \<and> prev then parse_digits acc False cs
      else None)"

text \<open>
  The default of \<open>sys.get_int_max_str_digits()\<close> (the code runs on Python 3.11 or
  later): a literal with more digits, leading zeros counted, raises ValueError.
\<close>

definition int_max_str_digits :: nat where
  "int_max_str_digits = 4300"

definition read_digits :: "string \<Rightarrow> nat option" where
  "read_digits body =
     (case parse_digits 0 False body of
        None \<Rightarrow> None
      | Some n \<Rightarrow> if int_max_str_digits < length (filter is_digit body) then None else Some n)"

text \<open>
  Python's \<open>int(s)\<close> on a string: blanks around, an optional sign, the digits.
  \<open>None\<close> stands for the ValueError.
\<close>

definition py_int :: "string \<Rightarrow> int option" where
  "py_int s =
     (case int_strip s of
        [] \<Rightarrow> None
      | c # cs \<Rightarrow>
          if c = CHR ''-'' then map_option (\<lambda>n. - int n) (read_digits cs)
          else if c = CHR ''+'' then map_option int (read_digits cs)
          else map_option int (read_digits (c # cs)))"

text \<open>\<open>s.split(sep)\<close> for a one-character separator.\<close>

fun split_on :: "char \<Rightarrow> string \<Rightarrow> string list" where
  "split_on sep [] = [[]]"
| "split_on sep (c # cs) =
     (if c = sep then [] # split_on sep cs
      else (case split_on sep cs of
              [] \<Rightarrow> [[c]]
            | p # ps \<Rightarrow> (c # p) # ps))"

definition upper_char :: "char \<Rightarrow> char" where
  "upper_char c =
     (if 97 \<le> (of_char c :: nat) \<and> (of_char c :: nat) \<le> 122
      then char_of ((of_char c :: nat) - 32) else c)"

definition upper :: "string \<Rightarrow> string" where
  "upper s = map upper_char s"

definition lower_char :: "char \<Rightarrow> char" where
  "lower_char c =
     (if 65 \<le> (of_char c :: nat) \<and> (of_char c :: nat) \<le> 90
      then char_of ((of_char c :: nat) + 32) else c)"

definition lower :: "string \<Rightarrow> string" where
  "lower s = map lower_char s"

definition startswith :: "string \<Rightarrow> string \<Rightarrow> bool" where
  "startswith s p = (take (length p) s = p)"


section \<open>The store (database.py)\<close>

text \<open>
  A row of the Reminders sheet as \<open>get_all_records\<close> returns it, one field for each
  column that \<open>create_reminder\<close> writes, in its order. The header row is not part of the
  list of rows.
\<close>

record reminder =
  rid :: pyval
  user_id :: pyval
  rtext :: pyval
  rday :: pyval
  time :: pyval
  frequency :: pyval
  timezone :: pyval
  active :: pyval
  created_at :: pyval
  last_sent :: pyval

record database =
  reminders_sheet :: "reminder list"
  logs_sheet :: "(pyval \<times> string \<times> pyval) list"

definition headers :: "string list" where
  "headers = [''id'', ''user_id'', ''text'', ''day'', ''time'', ''frequency'', ''timezone'',
              ''active'', ''created_at'', ''last_sent'']"

text \<open>How a written cell reads back: \<open>get_all_records\<close> turns integer text into an integer.\<close>

definition numericise :: "string \<Rightarrow> pyval" where
  "numericise s = (case py_int s of Some i \<Rightarrow> PyInt i | None \<Rightarrow> PyStr s)"

text \<open>\<open>update_cell(row, col, str(value))\<close> for the column named \<open>key\<close>.\<close>

definition update_cell :: "string \<Rightarrow> pyval \<Rightarrow> reminder \<Rightarrow> reminder" where
  "update_cell key v r =
     (let c = numericise (py_str v) in
      if key = ''id'' then r\<lparr>rid := c\<rparr>
      else if key = ''user_id'' then r\<lparr>user_id := c\<rparr>
      else if key = ''text'' then r\<lparr>rtext := c\<rparr>
      else if key = ''day'' then r\<lparr>rday := c\<rparr>
      else if key = ''time'' then r\<lparr>time := c\<rparr>
      else if key = ''frequency'' then r\<lparr>frequency := c\<rparr>
      else if key = ''timezone'' then r\<lparr>timezone := c\<rparr>
      else if key = ''active'' then r\<lparr>active := c\<rparr>
      else if key = ''created_at'' then r\<lparr>created_at := c\<rparr>
      else if key = ''last_sent'' then r\<lparr>last_sent := c\<rparr>
      else r)"

text \<open>\<open>reminders_sheet.find(query, in_column=1)\<close>: the first row whose id cell is the query.\<close>

fun find_row :: "string \<Rightarrow> reminder list \<Rightarrow> nat option" where
  "find_row q [] = None"
| "find_row q (r # rs) =
     (if py_str (rid r) = q then Some 0 else map_option Suc (find_row q rs))"

definition get_all_active_reminders :: "database \<Rightarrow> reminder list" where
  "get_all_active_reminders db =
     filter (\<lambda>r. upper (py_str (active r)) = ''TRUE'') (reminders_sheet db)"

definition get_reminder :: "database \<Rightarrow> pyval \<Rightarrow> reminder option" where
  "get_reminder db reminder_id =
     List.find (\<lambda>r. strip (py_str (rid r)) = strip (py_str reminder_id)) (reminders_sheet db)"

text \<open>The loop over \<open>updates.items()\<close>: a key that is no header is skipped.\<close>

fun apply_updates :: "(string \<times> pyval) list \<Rightarrow> reminder \<Rightarrow> reminder" where
  "apply_updates [] r = r"
| "apply_updates ((key, v) # us) r =
     apply_updates us (if key \<in> set headers then update_cell key v r else r)"

definition update_reminder :: "database \<Rightarrow> pyval \<Rightarrow> (string \<times> pyval) list \<Rightarrow> bool \<times> database" where
  "update_reminder db reminder_id updates =
     (case find_row (strip (py_str reminder_id)) (reminders_sheet db) of
        None \<Rightarrow> (False, db)
      | Some i \<Rightarrow>
          (True, db\<lparr>reminders_sheet :=
                     (reminders_sheet db)[i := apply_updates updates (reminders_sheet db ! i)]\<rparr>))"

definition delete_rows :: "nat \<Rightarrow> 'a list \<Rightarrow> 'a list" where
  "delete_rows i rows = take i rows @ drop (Suc i) rows"

definition delete_reminder :: "database \<Rightarrow> pyval \<Rightarrow> bool \<times> database" where
  "delete_reminder db reminder_id =
     (case find_row (strip (py_str reminder_id)) (reminders_sheet db) of
        Some i \<Rightarrow> (True, db\<lparr>reminders_sheet := delete_rows i (reminders_sheet db)\<rparr>)
      | None \<Rightarrow> (False, db))"

text \<open>
  \<open>log_reminder_sent\<close>: \<open>stamp\<close> is the text \<open>datetime.now().isoformat()\<close> gives at the
  call.
\<close>

definition log_reminder_sent :: "string \<Rightarrow> database \<Rightarrow> pyval \<Rightarrow> pyval \<Rightarrow> database" where
  "log_reminder_sent stamp db reminder_id uid =
     snd (update_reminder (db\<lparr>logs_sheet := logs_sheet db @ [(reminder_id, stamp, uid)]\<rparr>)
            reminder_id [(''last_sent'', PyStr stamp)])"

text \<open>How a value that \<open>append_row\<close> wrote reads back from the sheet.\<close>

fun cell_of :: "pyval \<Rightarrow> pyval" where
  "cell_of PyNone = PyStr []"
| "cell_of (PyBool b) = PyStr (if b then ''TRUE'' else ''FALSE'')"
| "cell_of (PyInt i) = PyInt i"
| "cell_of (PyStr s) = numericise s"

text \<open>
  \<open>create_reminder\<close>: \<open>reminder_id\<close> is what \<open>_get_next_reminder_id\<close> returned and
  \<open>stamp\<close> the creation time. \<open>reminder_data\<close> is an association list; a missing
  \<open>text\<close>, \<open>time\<close> or \<open>frequency\<close> raises KeyError. No value is validated.
\<close>

definition create_reminder ::
  "database \<Rightarrow> string \<Rightarrow> string \<Rightarrow> int \<Rightarrow> (string \<times> pyval) list \<Rightarrow> error + string \<times> database" where
  "create_reminder db reminder_id stamp uid reminder_data =
     (case (map_of reminder_data ''text'', map_of reminder_data ''time'',
            map_of reminder_data ''frequency'') of
        (Some txt, Some tm, Some freq) \<Rightarrow>
          Inr (reminder_id,
               db\<lparr>reminders_sheet := reminders_sheet db @
                    [\<lparr>rid = numericise reminder_id, user_id = PyInt uid, rtext = cell_of txt,
                      rday = cell_of (case map_of reminder_data ''day'' of
                                        None \<Rightarrow> PyNone | Some d \<Rightarrow> d),
                      time = cell_of tm, frequency = cell_of freq,
                      timezone = cell_of (case map_of reminder_data ''timezone'' of
                                            None \<Rightarrow> PyStr ''UTC'' | Some z \<Rightarrow> z),
                      active = PyStr ''TRUE'', created_at = PyStr stamp,
                      last_sent = PyStr []\<rparr>]\<rparr>)
      | _ \<Rightarrow> Inl KeyError)"


section \<open>The reminder manager (reminder\_manager.py)\<close>

text \<open>\<open>_validate_time\<close>: a value with no \<open>split\<close> raises AttributeError, which is caught.\<close>

fun validate_time :: "pyval \<Rightarrow> bool" where
  "validate_time (PyStr time_str) =
     (case split_on CHR '':'' time_str of
        [h, m] \<Rightarrow>
          (case py_int h of
             None \<Rightarrow> False
           | Some hour \<Rightarrow>
               (case py_int m of
                  None \<Rightarrow> False
                | Some minute \<Rightarrow> 0 \<le> hour \<and> hour \<le> 23 \<and> 0 \<le> minute \<and> minute \<le> 59))
      | _ \<Rightarrow> False)"
| "validate_time _ = False"

text \<open>
  The form of a time in words, to compare with \<open>_validate_time\<close>: a string with
  exactly one colon, where the text before the colon reads as an integer hour from 0 to
  23 and the text after it as an integer minute from 0 to 59.
\<close>

definition hour_minute_form :: "pyval \<Rightarrow> bool" where
  "hour_minute_form v =
     (case v of
        PyStr s \<Rightarrow>
          (let hour_text = takeWhile (\<lambda>c. c \<noteq> CHR '':'') s;
               rest = dropWhile (\<lambda>c. c \<noteq> CHR '':'') s
           in rest \<noteq> [] \<and> CHR '':'' \<notin> set (tl rest)
              \<and> (case (py_int hour_text, py_int (tl rest)) of
                    (Some h, Some m) \<Rightarrow> 0 \<le> h \<and> h \<le> 23 \<and> 0 \<le> m \<and> m \<le> 59
                  | _ \<Rightarrow> False))
      | _ \<Rightarrow> False)"

text \<open>
  An \<open>updates\<close> dictionary is an association list with distinct keys; \<open>'k' in updates\<close>
  is \<open>map_of updates k \<noteq> None\<close>. The methods return the result and the store after
  the call.
\<close>

definition edit_reminder ::
  "database \<Rightarrow> int \<Rightarrow> pyval \<Rightarrow> (string \<times> pyval) list \<Rightarrow> bool \<times> database" where
  "edit_reminder db uid reminder_id updates =
     (case get_reminder db reminder_id of
        None \<Rightarrow> (False, db)
      | Some reminder \<Rightarrow>
          if \<not> py_eq (user_id reminder) (PyInt uid) then (False, db)
          else if (case map_of updates ''time'' of
                     Some t \<Rightarrow> \<not> validate_time t
                   | None \<Rightarrow> False) then (False, db)
          else if (case map_of updates ''frequency'' of
                     Some f \<Rightarrow> \<not> (py_eq f (PyStr ''once'') \<or> py_eq f (PyStr ''daily'')
                                   \<or> py_eq f (PyStr ''weekly''))
                   | None \<Rightarrow> False) then (False, db)
          else (True, snd (update_reminder db reminder_id updates)))"

definition manager_delete_reminder :: "database \<Rightarrow> int \<Rightarrow> pyval \<Rightarrow> bool \<times> database" where
  "manager_delete_reminder db uid reminder_id =
     (case get_reminder db reminder_id of
        None \<Rightarrow> (False, db)
      | Some reminder \<Rightarrow>
          if \<not> py_eq (user_id reminder) (PyInt uid) then (False, db)
          else delete_reminder db reminder_id)"

definition toggle_reminder :: "database \<Rightarrow> int \<Rightarrow> pyval \<Rightarrow> bool \<times> database" where
  "toggle_reminder db uid reminder_id =
     (case get_reminder db reminder_id of
        None \<Rightarrow> (False, db)
      | Some reminder \<Rightarrow>
          if \<not> py_eq (user_id reminder) (PyInt uid) then (False, db)
          else
            (let new_status = \<not> truthy (active reminder)
             in update_reminder db reminder_id [(''active'', PyBool new_status)]))"


section \<open>Calendar arithmetic (datetime, calendar, pytz)\<close>

text \<open>
  A wall-clock reading in some zone. The code only ever compares and shifts readings of
  one zone with each other, which Python does field by field, so no offset is kept.
\<close>

record datetime =
  year :: int
  month :: int
  day :: int
  hour :: int
  minute :: int
  second :: int
  microsecond :: int

definition isleap :: "int \<Rightarrow> bool" where
  "isleap y = (y mod 4 = 0 \<and> (y mod 100 \<noteq> 0 \<or> y mod 400 = 0))"

text \<open>\<open>calendar.monthrange(y, m)[1]\<close>, the number of days of the month.\<close>

definition monthrange :: "int \<Rightarrow> int \<Rightarrow> int" where
  "monthrange y m =
     (if m = 2 then (if isleap y then 29 else 28)
      else if m = 4 \<or> m = 6 \<or> m = 9 \<or> m = 11 then 30
      else 31)"

text \<open>The range check of the \<open>datetime\<close> constructor, which \<open>replace\<close> runs on its result.\<close>

definition checked :: "datetime \<Rightarrow> error + datetime" where
  "checked d =
     (if 1 \<le> year d \<and> year d \<le> 9999 \<and> 1 \<le> month d \<and> month d \<le> 12
         \<and> 1 \<le> day d \<and> day d \<le> monthrange (year d) (month d)
         \<and> 0 \<le> hour d \<and> hour d \<le> 23 \<and> 0 \<le> minute d \<and> minute d \<le> 59
         \<and> 0 \<le> second d \<and> second d \<le> 59
         \<and> 0 \<le> microsecond d \<and> microsecond d \<le> 999999
      then Inr d else Inl ValueError)"

text \<open>An argument of \<open>replace\<close> must be an integer (CPython): a bool counts as one.\<close>

fun as_int :: "pyval \<Rightarrow> error + int" where
  "as_int (PyInt i) = Inr i"
| "as_int (PyBool b) = Inr (if b then 1 else 0)"
| "as_int PyNone = Inl TypeError"
| "as_int (PyStr s) = Inl TypeError"

text \<open>\<open>now.replace(day=target_day, hour=hour, minute=minute, second=0, microsecond=0)\<close>\<close>

definition replace_day_time :: "datetime \<Rightarrow> pyval \<Rightarrow> int \<Rightarrow> int \<Rightarrow> error + datetime" where
  "replace_day_time now target_day h m =
     (case as_int target_day of
        Inl e \<Rightarrow> Inl e
      | Inr d \<Rightarrow> checked (now\<lparr>day := d, hour := h, minute := m, second := 0, microsecond := 0\<rparr>))"

fun lex_less :: "int list \<Rightarrow> int list \<Rightarrow> bool" where
  "lex_less (x # xs) (y # ys) = (x < y \<or> (x = y \<and> lex_less xs ys))"
| "lex_less xs ys = False"

definition dt_fields :: "datetime \<Rightarrow> int list" where
  "dt_fields d = [year d, month d, day d, hour d, minute d, second d, microsecond d]"

text \<open>Python's \<open><\<close> and \<open><=\<close> on two readings of the same zone.\<close>

definition dt_less :: "datetime \<Rightarrow> datetime \<Rightarrow> bool" where
  "dt_less a b = lex_less (dt_fields a) (dt_fields b)"

definition dt_le :: "datetime \<Rightarrow> datetime \<Rightarrow> bool" where
  "dt_le a b = (dt_less a b \<or> dt_fields a = dt_fields b)"

definition prev_day :: "datetime \<Rightarrow> error + datetime" where
  "prev_day d =
     (if 1 < day d then Inr (d\<lparr>day := day d - 1\<rparr>)
      else if 1 < month d
        then Inr (d\<lparr>month := month d - 1, day := monthrange (year d) (month d - 1)\<rparr>)
      else if 1 < year d then Inr (d\<lparr>year := year d - 1, month := 12, day := 31\<rparr>)
      else Inl OverflowError)"

text \<open>\<open>d - timedelta(days=n)\<close>\<close>

fun minus_days :: "datetime \<Rightarrow> nat \<Rightarrow> error + datetime" where
  "minus_days d 0 = Inr d"
| "minus_days d (Suc n) = (case prev_day d of Inl e \<Rightarrow> Inl e | Inr d' \<Rightarrow> minus_days d' n)"

text \<open>
  What the code reads from outside: which zone names pytz knows, and the clock, as the
  wall-clock reading \<open>datetime.now(tz)\<close> gives for a zone.
\<close>

record env =
  tz_known :: "string \<Rightarrow> bool"
  clock :: "string \<Rightarrow> datetime"

text \<open>
  \<open>pytz.timezone(zone)\<close>: None and an unknown name raise UnknownTimeZoneError, a value
  with no \<open>upper\<close> raises AttributeError. The zone object is stood for by its name.
\<close>

fun pytz_timezone :: "env \<Rightarrow> pyval \<Rightarrow> error + string" where
  "pytz_timezone e (PyStr zone) = (if tz_known e zone then Inr zone else Inl UnknownTimeZoneError)"
| "pytz_timezone e PyNone = Inl UnknownTimeZoneError"
| "pytz_timezone e (PyInt i) = Inl AttributeError"
| "pytz_timezone e (PyBool b) = Inl AttributeError"

definition notify_hm :: "int \<times> int" where
  "notify_hm = (7, 35)"

definition active_start_hm :: "int \<times> int" where
  "active_start_hm = (7, 30)"

definition active_end_hm :: "int \<times> int" where
  "active_end_hm = (7, 40)"

definition inactivity_minutes :: int where
  "inactivity_minutes = 3"


section \<open>The trigger engine and the scheduler (bot.py)\<close>

text \<open>
  \<open>_compute_next_month_event\<close>. A row always has its \<open>timezone\<close> and \<open>day\<close> keys, so
  the defaults of the two \<open>get\<close> calls are never taken.
\<close>

definition compute_next_month_event :: "env \<Rightarrow> reminder \<Rightarrow> error + datetime" where
  "compute_next_month_event e reminder =
     (case pytz_timezone e (timezone reminder) of
        Inl err \<Rightarrow> Inl err
      | Inr user_tz \<Rightarrow>
          (let now = clock e user_tz;
               (h, m) = notify_hm;
               target_day = rday reminder;
               first = (case replace_day_time now target_day h m of
                          Inl ValueError \<Rightarrow>
                            checked (now\<lparr>day := monthrange (year now) (month now), hour := h,
                                         minute := m, second := 0, microsecond := 0\<rparr>)
                        | Inl err \<Rightarrow> Inl err
                        | Inr d \<Rightarrow> Inr d)
           in case first of
                Inl err \<Rightarrow> Inl err
              | Inr run_dt \<Rightarrow>
                  if dt_le run_dt now then
                    (let y = year run_dt + (if month run_dt = 12 then 1 else 0);
                         mo = (if month run_dt = 12 then 1 else month run_dt + 1);
                         last_day = monthrange y mo
                     in case as_int target_day of
                          Inl err \<Rightarrow> Inl err
                        | Inr td \<Rightarrow> checked (run_dt\<lparr>year := y, month := mo, day := min td last_day\<rparr>))
                  else Inr run_dt))"

text \<open>
  The triggers of the scheduling library. A date trigger holds its run date and zone, a
  cron trigger its hour, minute, day of week and day of month (None where the argument is
  not passed) and zone.
\<close>

datatype trigger =
    DateTrigger datetime string
  | CronTrigger int int "string option" "pyval option" string

text \<open>
  \<open>DateTrigger(run_date=d, timezone=z)\<close> resolves a zone given by name with pytz, takes
  the local zone for None and raises TypeError for any other value.
\<close>

fun date_trigger :: "env \<Rightarrow> datetime \<Rightarrow> pyval \<Rightarrow> error + trigger" where
  "date_trigger e d (PyStr z) =
     (case pytz_timezone e (PyStr z) of Inl err \<Rightarrow> Inl err | Inr tz \<Rightarrow> Inr (DateTrigger d tz))"
| "date_trigger e d PyNone = Inr (DateTrigger d ''local'')"
| "date_trigger e d (PyInt i) = Inl TypeError"
| "date_trigger e d (PyBool b) = Inl TypeError"

text \<open>A job: its trigger and the arguments \<open>(user_id, reminder, offset_days)\<close> of the callback.\<close>

record job =
  job_trigger :: trigger
  job_args :: "pyval \<times> reminder \<times> nat"

type_synonym scheduler = "(string \<times> job) list"

definition remove_job :: "scheduler \<Rightarrow> string \<Rightarrow> error + scheduler" where
  "remove_job sched job_id =
     (if job_id \<in> fst ` set sched then Inr (AList.delete job_id sched) else Inl JobLookupError)"

text \<open>\<open>try: remove_job(id) except: pass\<close>\<close>

definition try_remove_job :: "scheduler \<Rightarrow> string \<Rightarrow> scheduler" where
  "try_remove_job sched job_id = (case remove_job sched job_id of Inl err \<Rightarrow> sched | Inr s \<Rightarrow> s)"

text \<open>\<open>add_job(..., id=job_id, replace_existing=True)\<close>\<close>

definition add_job :: "scheduler \<Rightarrow> string \<Rightarrow> trigger \<Rightarrow> pyval \<times> reminder \<times> nat \<Rightarrow> scheduler" where
  "add_job sched job_id trg args = AList.update job_id \<lparr>job_trigger = trg, job_args = args\<rparr> sched"

definition job_key :: "reminder \<Rightarrow> nat \<Rightarrow> string" where
  "job_key reminder offset_days =
     ''reminder_'' @ py_str (rid reminder) @ ''_dminus'' @ str_nat offset_days"

definition job_prefix :: "reminder \<Rightarrow> string" where
  "job_prefix reminder = ''reminder_'' @ py_str (rid reminder) @ ''_''"

text \<open>
  \<open>_schedule_offset_job\<close>: the scheduler after the call, and the exception that left it,
  if any. The removal has happened when the zone lookup raises.
\<close>

definition schedule_offset_job ::
  "env \<Rightarrow> scheduler \<Rightarrow> reminder \<Rightarrow> datetime \<Rightarrow> nat \<Rightarrow> error option \<times> scheduler" where
  "schedule_offset_job e sched reminder run_dt offset_days =
     (let job_base = job_key reminder offset_days;
          sched1 = try_remove_job sched job_base
      in case pytz_timezone e (timezone reminder) of
           Inl err \<Rightarrow> (Some err, sched1)
         | Inr tz \<Rightarrow>
             (None, add_job sched1 job_base (DateTrigger run_dt tz)
                      (user_id reminder, reminder, offset_days)))"

text \<open>
  The loop of \<open>send_reminder_job\<close> over \<open>get_jobs()\<close> that removes every job whose id
  starts with the prefix; a failing removal is passed over.
\<close>

fun remove_jobs_with_prefix :: "string \<Rightarrow> string list \<Rightarrow> scheduler \<Rightarrow> scheduler" where
  "remove_jobs_with_prefix p [] sched = sched"
| "remove_jobs_with_prefix p (job_id # ids) sched =
     remove_jobs_with_prefix p ids
       (if startswith job_id p then try_remove_job sched job_id else sched)"

record bot =
  db :: database
  scheduler :: scheduler

text \<open>
  \<open>send_reminder_job\<close>. \<open>delivered\<close> says whether \<open>send_message\<close> returned (True) or
  raised TelegramError; the message text plays no part in what follows. Every exception
  is caught inside, so the callback always returns the new state.
\<close>

definition send_reminder_job :: "env \<Rightarrow> bool \<Rightarrow> string \<Rightarrow> bot \<Rightarrow> pyval \<Rightarrow> reminder \<Rightarrow> nat \<Rightarrow> bot" where
  "send_reminder_job e delivered stamp st uid reminder offset_days =
     (if \<not> delivered then st
      else
        (let st1 = st\<lparr>db := log_reminder_sent stamp (db st) (rid reminder) uid\<rparr>;
             st2 = (if py_eq (frequency reminder) (PyStr ''once'') \<and> offset_days = 0
                    then st1\<lparr>db := snd (delete_reminder (db st1) (rid reminder)),
                             scheduler := remove_jobs_with_prefix (job_prefix reminder)
                                       (map fst (scheduler st1)) (scheduler st1)\<rparr>
                    else st1)
         in if py_eq (frequency reminder) (PyStr ''monthly'') then
              (case compute_next_month_event e reminder of
                 Inl err \<Rightarrow> st2
               | Inr next_event \<Rightarrow>
                   (case minus_days next_event offset_days of
                      Inl err \<Rightarrow> st2
                    | Inr run_dt \<Rightarrow>
                        st2\<lparr>scheduler := snd (schedule_offset_job e (scheduler st2) reminder run_dt offset_days)\<rparr>))
            else st2))"

text \<open>
  The run date of the \<open>once\<close> branch of \<open>_schedule_single_reminder\<close>: the target day of
  the current month at the notification time, moved to the next month when it is not
  after \<open>now\<close>. The month is replaced first, with the day unchanged; only then is the day
  set again, with the clamp to the last day on ValueError.
\<close>

definition once_run_date :: "datetime \<Rightarrow> reminder \<Rightarrow> error + datetime" where
  "once_run_date now reminder =
     (let (h, m) = notify_hm;
          target_day = (if rday reminder = PyNone then PyInt (day now) else rday reminder)
      in case replace_day_time now target_day h m of
           Inl err \<Rightarrow> Inl err
         | Inr run_date \<Rightarrow>
             if dt_le run_date now then
               (case (if month now = 12
                      then checked (run_date\<lparr>year := year now + 1, month := 1\<rparr>)
                      else checked (run_date\<lparr>month := month now + 1\<rparr>)) of
                  Inl err \<Rightarrow> Inl err
                | Inr moved \<Rightarrow>
                    (case as_int target_day of
                       Inl err \<Rightarrow> Inl err
                     | Inr td \<Rightarrow>
                         (case checked (moved\<lparr>day := td\<rparr>) of
                            Inl ValueError \<Rightarrow>
                              checked (moved\<lparr>day := monthrange (year moved) (month moved)\<rparr>)
                          | Inl err \<Rightarrow> Inl err
                          | Inr d \<Rightarrow> Inr d)))
             else Inr run_date)"

text \<open>
  The handler \<open>except (pytz.UnknownTimeZoneError, ValueError)\<close> of the \<open>once\<close> branch: it
  logs and returns; any other exception leaves the function.
\<close>

definition once_handler :: "error \<Rightarrow> scheduler \<Rightarrow> error option \<times> scheduler" where
  "once_handler err sched =
     (if err = UnknownTimeZoneError \<or> err = ValueError then (None, sched) else (Some err, sched))"

definition schedule_once ::
  "env \<Rightarrow> scheduler \<Rightarrow> reminder \<Rightarrow> string \<Rightarrow> error option \<times> scheduler" where
  "schedule_once e sched reminder tz =
     (let now = clock e tz; user_timezone = timezone reminder
      in case once_run_date now reminder of
           Inl err \<Rightarrow> once_handler err sched
         | Inr run_date \<Rightarrow>
             (case date_trigger e run_date user_timezone of
                Inl err \<Rightarrow> once_handler err sched
              | Inr trg \<Rightarrow>
                  (let s0 = add_job sched (job_key reminder 0) trg (user_id reminder, reminder, 0)
                   in case minus_days run_date 1 of
                        Inl err \<Rightarrow> once_handler err s0
                      | Inr run_date_1d \<Rightarrow>
                          (case date_trigger e run_date_1d user_timezone of
                             Inl err \<Rightarrow> once_handler err s0
                           | Inr trg_1d \<Rightarrow>
                               (let s1 = add_job s0 (job_key reminder 1) trg_1d
                                           (user_id reminder, reminder, 1)
                                in case minus_days run_date 2 of
                                     Inl err \<Rightarrow> once_handler err s1
                                   | Inr run_date_2d \<Rightarrow>
                                       (case date_trigger e run_date_2d user_timezone of
                                          Inl err \<Rightarrow> once_handler err s1
                                        | Inr trg_2d \<Rightarrow>
                                            (None, add_job s1 (job_key reminder 2) trg_2d
                                                     (user_id reminder, reminder, 2))))))))"

text \<open>
  The \<open>monthly\<close> branch: the cron job of offset 0, then the date jobs of offsets 1 and 2
  inside \<open>try ... except Exception\<close>, which logs and goes on.
\<close>

definition schedule_monthly ::
  "env \<Rightarrow> scheduler \<Rightarrow> reminder \<Rightarrow> string \<Rightarrow> error option \<times> scheduler" where
  "schedule_monthly e sched reminder tz =
     (let (h, m) = notify_hm;
          s0 = add_job sched (job_key reminder 0) (CronTrigger h m None (Some (rday reminder)) tz)
                 (user_id reminder, reminder, 0)
      in case compute_next_month_event e reminder of
           Inl err \<Rightarrow> (None, s0)
         | Inr next_event \<Rightarrow>
             (case minus_days next_event 1 of
                Inl err \<Rightarrow> (None, s0)
              | Inr d1 \<Rightarrow>
                  (case schedule_offset_job e s0 reminder d1 1 of
                     (Some err, s1) \<Rightarrow> (None, s1)
                   | (None, s1) \<Rightarrow>
                       (case minus_days next_event 2 of
                          Inl err \<Rightarrow> (None, s1)
                        | Inr d2 \<Rightarrow> (None, snd (schedule_offset_job e s1 reminder d2 2))))))"

text \<open>
  \<open>_schedule_single_reminder\<close>: the scheduler after the call, and the exception that left
  it, if any. Only UnknownTimeZoneError makes the zone fall back to Asia/Ho\_Chi\_Minh.
\<close>

definition schedule_single_reminder ::
  "env \<Rightarrow> scheduler \<Rightarrow> reminder \<Rightarrow> error option \<times> scheduler" where
  "schedule_single_reminder e sched reminder =
     (let user_timezone = timezone reminder;
          sched0 = try_remove_job (try_remove_job (try_remove_job sched (job_key reminder 0))
                                     (job_key reminder 1)) (job_key reminder 2);
          (h, m) = notify_hm
      in case (case pytz_timezone e user_timezone of
                 Inl UnknownTimeZoneError \<Rightarrow> Inr ''Asia/Ho_Chi_Minh''
               | Inl err \<Rightarrow> Inl err
               | Inr z \<Rightarrow> Inr z) of
           Inl err \<Rightarrow> (Some err, sched0)
         | Inr tz \<Rightarrow>
             if py_eq (frequency reminder) (PyStr ''once'') then schedule_once e sched0 reminder tz
             else if py_eq (frequency reminder) (PyStr ''daily'') then
               (None, add_job sched0 (job_key reminder 0) (CronTrigger h m None None tz)
                        (user_id reminder, reminder, 0))
             else if py_eq (frequency reminder) (PyStr ''weekly'') then
               (None, add_job sched0 (job_key reminder 0) (CronTrigger h m (Some ''0'') None tz)
                        (user_id reminder, reminder, 0))
             else if py_eq (frequency reminder) (PyStr ''monthly'') then
               schedule_monthly e sched0 reminder tz
             else (None, sched0))"

text \<open>The ids of the jobs of a reminder: those that start with its prefix.\<close>

definition jobs_of :: "scheduler \<Rightarrow> reminder \<Rightarrow> string list" where
  "jobs_of sched reminder = filter (\<lambda>k. startswith k (job_prefix reminder)) (map fst sched)"

definition same_date :: "datetime \<Rightarrow> datetime \<Rightarrow> bool" where
  "same_date a b = (year a = year b \<and> month a = month b \<and> day a = day b)"

text \<open>\<open>(v or '').lower()\<close>: a true value that is no string has no \<open>lower\<close>.\<close>

definition lowered :: "pyval \<Rightarrow> error + string" where
  "lowered v =
     (if \<not> truthy v then Inr []
      else (case v of PyStr s \<Rightarrow> Inr (lower s) | _ \<Rightarrow> Inl AttributeError))"

text \<open>
  \<open>_reminder_due_today\<close>, with the zone fallback of its first lines; \<open>weekday\<close> is
  \<open>now.weekday()\<close> of the reading.
\<close>

definition reminder_due_today :: "env \<Rightarrow> (datetime \<Rightarrow> int) \<Rightarrow> reminder \<Rightarrow> error + bool" where
  "reminder_due_today e weekday reminder =
     (case (case pytz_timezone e (timezone reminder) of
              Inl UnknownTimeZoneError \<Rightarrow> Inr ''Asia/Ho_Chi_Minh''
            | Inl err \<Rightarrow> Inl err
            | Inr z \<Rightarrow> Inr z) of
        Inl err \<Rightarrow> Inl err
      | Inr tz \<Rightarrow>
          (let now = clock e tz in
           case lowered (frequency reminder) of
             Inl err \<Rightarrow> Inl err
           | Inr freq \<Rightarrow>
               if freq = ''daily'' then Inr True
               else if freq = ''weekly'' then Inr (weekday now = 0)
               else if freq = ''monthly'' \<or> freq = ''once'' then
                 (case compute_next_month_event e reminder of
                    Inl err \<Rightarrow> Inr False
                  | Inr next_event \<Rightarrow>
                      (case minus_days next_event 1 of
                         Inl err \<Rightarrow> Inl err
                       | Inr d1 \<Rightarrow>
                           (case minus_days next_event 2 of
                              Inl err \<Rightarrow> Inl err
                            | Inr d2 \<Rightarrow>
                                Inr (same_date now next_event \<or> same_date now d1
                                     \<or> same_date now d2))))
               else Inr False))"


section \<open>The active-window controller (bot.py)\<close>

text \<open>
  The lines the controller logs, in the order it writes them; a start or a stop of the
  receive loop is followed by its line, so the log counts the transitions.
\<close>

datatype event =
    WakeBySchedule | WakeByMessage | SleepBySchedule | SleepByTimeout
  | ActivityExtend | PeekDetected int

text \<open>The inactivity task: none yet, outstanding, cancelled, or returned.\<close>

datatype task = NoTask | TaskPending | TaskCancelled | TaskDone

record polling =
  running :: bool
  debug_always_on :: bool
  last_activity_vn :: "datetime option"
  inactivity_task :: task
  peek_offset :: "int option"
  events :: "event list"

text \<open>\<open>_is_active_hours\<close>; \<open>now_vn\<close> is the reading of the Vietnam clock at the call.\<close>

definition is_active_hours :: "polling \<Rightarrow> datetime \<Rightarrow> bool" where
  "is_active_hours p now_vn =
     (if debug_always_on p then True
      else
        (let (sh, sm) = active_start_hm;
             (eh, em) = active_end_hm;
             start = now_vn\<lparr>hour := sh, minute := sm, second := 0, microsecond := 0\<rparr>;
             end_dt = now_vn\<lparr>hour := eh, minute := em, second := 0, microsecond := 0\<rparr>
         in dt_le start now_vn \<and> dt_less now_vn end_dt))"

text \<open>\<open>_start_polling_if_needed\<close>; the start of the receive loop itself is taken to succeed.\<close>

definition start_polling_if_needed :: "polling \<Rightarrow> datetime \<Rightarrow> string \<Rightarrow> polling" where
  "start_polling_if_needed p now_vn source =
     (if running p then p
      else
        (let p1 = p\<lparr>running := True\<rparr>;
             p2 = (if is_active_hours p1 now_vn \<and> inactivity_task p1 = TaskPending
                   then p1\<lparr>inactivity_task := TaskCancelled\<rparr> else p1)
         in p2\<lparr>events := events p2 @ [if source = ''schedule'' then WakeBySchedule else WakeByMessage]\<rparr>))"

text \<open>\<open>_stop_polling_if_needed\<close>\<close>

definition stop_polling_if_needed :: "polling \<Rightarrow> datetime \<Rightarrow> string \<Rightarrow> polling" where
  "stop_polling_if_needed p now_vn reason =
     (if \<not> running p then p
      else if is_active_hours p now_vn then p
      else p\<lparr>running := False,
             events := events p @ [if reason = ''schedule'' then SleepBySchedule else SleepByTimeout]\<rparr>)"

definition wake_job :: "polling \<Rightarrow> datetime \<Rightarrow> polling" where
  "wake_job p now_vn = start_polling_if_needed p now_vn ''schedule''"

definition sleep_job :: "polling \<Rightarrow> datetime \<Rightarrow> polling" where
  "sleep_job p now_vn = stop_polling_if_needed p now_vn ''schedule''"

text \<open>\<open>_schedule_inactivity_timer\<close>: an outstanding task is cancelled and a new one takes its place.\<close>

definition schedule_inactivity_timer :: "polling \<Rightarrow> polling" where
  "schedule_inactivity_timer p = p\<lparr>inactivity_task := TaskPending\<rparr>"

definition register_activity :: "polling \<Rightarrow> datetime \<Rightarrow> polling" where
  "register_activity p now_vn =
     (let p1 = p\<lparr>last_activity_vn := Some now_vn\<rparr>
      in if \<not> is_active_hours p1 now_vn
         then (let p2 = schedule_inactivity_timer p1 in p2\<lparr>events := events p2 @ [ActivityExtend]\<rparr>)
         else p1)"

definition next_day :: "datetime \<Rightarrow> error + datetime" where
  "next_day d =
     (if day d < monthrange (year d) (month d) then Inr (d\<lparr>day := day d + 1\<rparr>)
      else if month d < 12 then Inr (d\<lparr>month := month d + 1, day := 1\<rparr>)
      else if year d < 9999 then Inr (d\<lparr>year := year d + 1, month := 1, day := 1\<rparr>)
      else Inl OverflowError)"

fun plus_days :: "datetime \<Rightarrow> nat \<Rightarrow> error + datetime" where
  "plus_days d 0 = Inr d"
| "plus_days d (Suc n) = (case next_day d of Inl e \<Rightarrow> Inl e | Inr d' \<Rightarrow> plus_days d' n)"

text \<open>\<open>d + timedelta(minutes=n)\<close> for \<open>n \<ge> 0\<close>\<close>

definition plus_minutes :: "datetime \<Rightarrow> int \<Rightarrow> error + datetime" where
  "plus_minutes d n =
     (let total = hour d * 60 + minute d + n
      in plus_days (d\<lparr>hour := (total mod 1440) div 60, minute := (total mod 1440) mod 60\<rparr>)
           (nat (total div 1440)))"

text \<open>
  \<open>_inactivity_countdown\<close>: the list holds the clock reading of each turn of the loop.
  The result is None when the readings end with the task still waiting, and the
  exception or the state at the return of the task otherwise.
\<close>

fun inactivity_countdown :: "polling \<Rightarrow> datetime list \<Rightarrow> (error + polling) option" where
  "inactivity_countdown p [] = None"
| "inactivity_countdown p (now # later) =
     (case last_activity_vn p of
        None \<Rightarrow> Some (Inr (p\<lparr>inactivity_task := TaskDone\<rparr>))
      | Some last_activity \<Rightarrow>
          (case plus_minutes last_activity inactivity_minutes of
             Inl err \<Rightarrow> Some (Inl err)
           | Inr wake_deadline \<Rightarrow>
               if dt_le wake_deadline now
               then Some (Inr ((stop_polling_if_needed p now ''timeout'')\<lparr>inactivity_task := TaskDone\<rparr>))
               else if is_active_hours p now then Some (Inr (p\<lparr>inactivity_task := TaskDone\<rparr>))
               else inactivity_countdown p later))"

text \<open>
  \<open>_peek_updates_job\<close>. \<open>get_updates\<close> stands for \<open>bot.get_updates(limit=1, timeout=0)\<close>,
  given the \<open>offset\<close> argument when one is passed: the update ids it returns, or the
  TelegramError it raises. Any exception is caught and logged. \<open>peek_args\<close> is the
  \<open>offset\<close> entry of the arguments: it is passed only when the cursor is set and not 0.
\<close>

definition peek_args :: "polling \<Rightarrow> int option" where
  "peek_args p = (case peek_offset p of
                    None \<Rightarrow> None
                  | Some n \<Rightarrow> if n \<noteq> 0 then Some (n + 1) else None)"

definition peek_updates_job ::
  "(int option \<Rightarrow> error + int list) \<Rightarrow> polling \<Rightarrow> datetime \<Rightarrow> polling" where
  "peek_updates_job get_updates p now_vn =
     (if is_active_hours p now_vn then p
      else if running p then p
      else
        (case get_updates (peek_args p) of
              Inl err \<Rightarrow> p
            | Inr updates \<Rightarrow>
                if updates = [] then p
                else
                  (let last_id = last updates;
                       p1 = p\<lparr>peek_offset := Some last_id,
                              events := events p @ [PeekDetected last_id]\<rparr>;
                       p2 = start_polling_if_needed p1 now_vn ''message''
                   in register_activity p2 now_vn)))"

text \<open>The wake lines of a log: one for each start of the receive loop.\<close>

definition wakes :: "event list \<Rightarrow> nat" where
  "wakes es = length (filter (\<lambda>ev. ev = WakeBySchedule \<or> ev = WakeByMessage) es)"


section \<open>Sample data\<close>

definition at :: "int \<Rightarrow> int \<Rightarrow> int \<Rightarrow> int \<Rightarrow> int \<Rightarrow> int \<Rightarrow> datetime" where
  "at y mo d h mi s = \<lparr>year = y, month = mo, day = d, hour = h, minute = mi, second = s,
                       microsecond = 0\<rparr>"

text \<open>An environment whose clock reads \<open>now\<close> in every zone and that knows two zone names.\<close>

definition env_at :: "datetime \<Rightarrow> env" where
  "env_at now = \<lparr>tz_known = (\<lambda>z. z = ''Asia/Ho_Chi_Minh'' \<or> z = ''UTC''), clock = (\<lambda>z. now)\<rparr>"

text \<open>Reminder 7 of user 42, with the given frequency, day of month and zone name.\<close>

definition sample_reminder :: "string \<Rightarrow> int \<Rightarrow> string \<Rightarrow> reminder" where
  "sample_reminder freq d z =
     \<lparr>rid = PyInt 7, user_id = PyInt 42, rtext = PyStr ''rent'', rday = PyInt d,
      time = PyStr ''07:35'', frequency = PyStr freq, timezone = PyStr z,
      active = PyStr ''TRUE'', created_at = PyStr ''2024-01-01T09:00:00'', last_sent = PyStr []\<rparr>"

definition sample_db :: "reminder \<Rightarrow> database" where
  "sample_db r = \<lparr>reminders_sheet = [r], logs_sheet = []\<rparr>"

definition sleeping :: polling where
  "sleeping = \<lparr>running = False, debug_always_on = False, last_activity_vn = None,
               inactivity_task = NoTask, peek_offset = None, events = []\<rparr>"


text \<open>
  A sample \<open>get_updates\<close> for a queue of pending update ids, oldest first: it serves the
  first id not below the offset.
\<close>

definition pending_updates :: "int list \<Rightarrow> int option \<Rightarrow> error + int list" where
  "pending_updates q off =
     Inr (take 1 (filter (\<lambda>u. case off of None \<Rightarrow> True | Some k \<Rightarrow> k \<le> u) q))"

text \<open>
  A bot whose store holds the one reminder \<open>r\<close> and whose scheduler holds the jobs that
  \<open>_schedule_single_reminder\<close> installs for it in the environment \<open>e\<close>.
\<close>

definition bot_with :: "env \<Rightarrow> reminder \<Rightarrow> bot" where
  "bot_with e r = \<lparr>db = sample_db r, scheduler = snd (schedule_single_reminder e [] r)\<rparr>"

section \<open>Ownership and validation in the reminder manager\<close>

text \<open>
  C9. When no reminder has the given id, or the stored reminder's \<open>user_id\<close> is not the
  caller's, \<open>edit_reminder\<close>, \<open>delete_reminder\<close> and \<open>toggle_reminder\<close> return False
  and leave the store as it was.
\<close>

theorem foreign_or_missing_reminder_rejected:
  assumes "case get_reminder store reminder_id of
             None \<Rightarrow> True
           | Some r \<Rightarrow> \<not> py_eq (user_id r) (PyInt uid)"
  shows "edit_reminder store uid reminder_id updates = (False, store)
       \<and> manager_delete_reminder store uid reminder_id = (False, store)
       \<and> toggle_reminder store uid reminder_id = (False, store)"
  using assms
  by (simp add: edit_reminder_def manager_delete_reminder_def toggle_reminder_def
           split: option.splits)

theorem foreign_or_missing_reminder_rejected_witness:
  "(case get_reminder (sample_db (sample_reminder ''daily'' 15 ''UTC'')) (PyStr ''7'') of
      None \<Rightarrow> True
    | Some r \<Rightarrow> \<not> py_eq (user_id r) (PyInt 99))
   \<and> edit_reminder (sample_db (sample_reminder ''daily'' 15 ''UTC'')) 99 (PyStr ''7'')
        [(''time'', PyStr ''08:00'')]
      = (False, sample_db (sample_reminder ''daily'' 15 ''UTC''))
   \<and> manager_delete_reminder (sample_db (sample_reminder ''daily'' 15 ''UTC'')) 99 (PyStr ''7'')
      = (False, sample_db (sample_reminder ''daily'' 15 ''UTC''))
   \<and> toggle_reminder (sample_db (sample_reminder ''daily'' 15 ''UTC'')) 99 (PyStr ''7'')
      = (False, sample_db (sample_reminder ''daily'' 15 ''UTC''))"
proof -
  have h: "case get_reminder (sample_db (sample_reminder ''daily'' 15 ''UTC'')) (PyStr ''7'') of
             None \<Rightarrow> True
           | Some r \<Rightarrow> \<not> py_eq (user_id r) (PyInt 99)"
    by code_simp
  show ?thesis
    using h foreign_or_missing_reminder_rejected [OF h] by simp
qed


section \<open>The form of a time\<close>

text \<open>
  Readings of \<open>int()\<close>: blanks and a sign around the digits, single underscores inside;
  a separator 0x1c is no blank for it, though \<open>strip\<close> removes it.
\<close>

lemma py_int_examples:
  "py_int ''07'' = Some 7"
  "py_int '' 7 '' = Some 7"
  "py_int ''+1_0'' = Some 10"
  "py_int ''-0'' = Some 0"
  "py_int ''1__0'' = None"
  "py_int ''_1'' = None"
  "py_int ''1_'' = None"
  "py_int ''+ 1'' = None"
  "py_int [] = None"
  "py_int (CHR 0x1C # ''7'') = None"
  "py_int (CHR 0xA0 # ''7'') = Some 7"
  "strip (CHR 0x1C # ''7'') = ''7''"
  by code_simp+

lemma read_digits_limit:
  "int_max_str_digits < length (filter is_digit body) \<Longrightarrow> read_digits body = None"
  by (simp add: read_digits_def split: option.splits)

lemma split_on_nonempty: "split_on c s \<noteq> []"
  by (induction s) (auto split: list.splits)

lemma split_on_no_sep: "c \<notin> set s \<Longrightarrow> split_on c s = [s]"
  by (induction s) auto

lemma split_on_sep: "c \<notin> set a \<Longrightarrow> split_on c (a @ c # b) = a # split_on c b"
  by (induction a) auto

lemma split_on_single: "(split_on c s = [x]) = (c \<notin> set s \<and> x = s)"
proof (cases "c \<in> set s")
  case False
  then show ?thesis by (auto simp: split_on_no_sep)
next
  case True
  then obtain a b where "s = a @ c # b" "c \<notin> set a"
    by (auto dest: split_list_first)
  with True show ?thesis
    by (simp add: split_on_sep split_on_nonempty)
qed

lemma take_until_sep:
  "c \<notin> set a \<Longrightarrow> takeWhile (\<lambda>x. x \<noteq> c) (a @ c # b) = a"
  "c \<notin> set a \<Longrightarrow> dropWhile (\<lambda>x. x \<noteq> c) (a @ c # b) = c # b"
  by (induction a) auto

text \<open>The form, said with the two parts named.\<close>

lemma hour_minute_form_iff:
  "hour_minute_form v =
     (\<exists>hs ms h m. v = PyStr (hs @ CHR '':'' # ms)
        \<and> CHR '':'' \<notin> set hs \<and> CHR '':'' \<notin> set ms
        \<and> py_int hs = Some h \<and> py_int ms = Some m
        \<and> 0 \<le> h \<and> h \<le> 23 \<and> 0 \<le> m \<and> m \<le> 59)"
proof
  assume f: "hour_minute_form v"
  then obtain s where v: "v = PyStr s"
    by (cases v) (simp_all add: hour_minute_form_def)
  let ?hs = "takeWhile (\<lambda>c. c \<noteq> CHR '':'') s"
  let ?rest = "dropWhile (\<lambda>c. c \<noteq> CHR '':'') s"
  from f v have r: "?rest \<noteq> []" and nc: "CHR '':'' \<notin> set (tl ?rest)"
    by (simp_all add: hour_minute_form_def Let_def)
  from r have hd: "hd ?rest = CHR '':''"
    using hd_dropWhile [of "\<lambda>c. c \<noteq> CHR '':''" s] by simp
  have "s = ?hs @ ?rest" by simp
  with r hd have s: "s = ?hs @ CHR '':'' # tl ?rest"
    by (metis list.collapse)
  have nh: "CHR '':'' \<notin> set ?hs"
    by (auto dest: set_takeWhileD)
  from f v obtain h m where "py_int ?hs = Some h" "py_int (tl ?rest) = Some m"
      "0 \<le> h" "h \<le> 23" "0 \<le> m" "m \<le> 59"
    by (auto simp: hour_minute_form_def Let_def split: option.splits)
  with v s nh nc show "\<exists>hs ms h m. v = PyStr (hs @ CHR '':'' # ms)
        \<and> CHR '':'' \<notin> set hs \<and> CHR '':'' \<notin> set ms
        \<and> py_int hs = Some h \<and> py_int ms = Some m
        \<and> 0 \<le> h \<and> h \<le> 23 \<and> 0 \<le> m \<and> m \<le> 59"
    by blast
next
  assume "\<exists>hs ms h m. v = PyStr (hs @ CHR '':'' # ms)
        \<and> CHR '':'' \<notin> set hs \<and> CHR '':'' \<notin> set ms
        \<and> py_int hs = Some h \<and> py_int ms = Some m
        \<and> 0 \<le> h \<and> h \<le> 23 \<and> 0 \<le> m \<and> m \<le> 59"
  then show "hour_minute_form v"
    by (auto simp: hour_minute_form_def take_until_sep)
qed

text \<open>\<open>_validate_time\<close> accepts exactly the values of that form.\<close>

lemma validate_time_is_hour_minute_form: "validate_time v = hour_minute_form v"
proof (cases v)
  case (PyStr s)
  show ?thesis
  proof (cases "CHR '':'' \<in> set s")
    case False
    then have "split_on CHR '':'' s = [s]" "dropWhile (\<lambda>c. c \<noteq> CHR '':'') s = []"
      by (auto simp: split_on_no_sep)
    with PyStr show ?thesis
      by (simp add: hour_minute_form_def)
  next
    case True
    then obtain a b where s: "s = a @ CHR '':'' # b" and a: "CHR '':'' \<notin> set a"
      by (auto dest: split_list_first)
    have u: "split_on CHR '':'' s = a # split_on CHR '':'' b"
      using s a by (simp add: split_on_sep)
    show ?thesis
    proof (cases "CHR '':'' \<in> set b")
      case True
      then have "\<forall>x. split_on CHR '':'' b \<noteq> [x]"
        by (simp add: split_on_single)
      then have "\<not> validate_time (PyStr s)"
        using u by (auto split: list.splits)
      with True s a PyStr show ?thesis
        by (simp add: hour_minute_form_def take_until_sep)
    next
      case False
      then have "split_on CHR '':'' b = [b]"
        by (simp add: split_on_no_sep)
      with u False s a PyStr show ?thesis
        by (simp add: hour_minute_form_def take_until_sep split: option.splits)
    qed
  qed
qed (simp_all add: hour_minute_form_def)

lemma numericise_monthly: "numericise ''monthly'' = PyStr ''monthly''"
  by code_simp

lemma py_eq_listed:
  "(py_eq f (PyStr ''once'') \<or> py_eq f (PyStr ''daily'') \<or> py_eq f (PyStr ''weekly''))
   = (f \<in> {PyStr ''once'', PyStr ''daily'', PyStr ''weekly''})"
  by (cases f) auto

text \<open>
  An edit by the owner whose time, if any, has the form and whose frequency, if any, is
  listed goes to the store: the two checks refuse nothing else.
\<close>

lemma edit_applies_valid_update:
  assumes "get_reminder store reminder_id = Some r" "py_eq (user_id r) (PyInt uid)"
      and "\<forall>t. map_of updates ''time'' = Some t \<longrightarrow> hour_minute_form t"
      and "\<forall>f. map_of updates ''frequency'' = Some f
               \<longrightarrow> f \<in> {PyStr ''once'', PyStr ''daily'', PyStr ''weekly''}"
  shows "edit_reminder store uid reminder_id updates
         = (True, snd (update_reminder store reminder_id updates))"
  using assms
  by (auto simp: edit_reminder_def validate_time_is_hour_minute_form py_eq_listed
           split: option.splits)

text \<open>
  C10. \<open>edit_reminder\<close> returns False and leaves the store as it was when \<open>updates\<close>
  holds a \<open>time\<close> that is not a string \<open>hs:ms\<close> with no other colon in which \<open>hs\<close>
  reads as an integer from 0 to 23 and \<open>ms\<close> as an integer from 0 to 59, or a
  \<open>frequency\<close> other than once, daily and weekly. So an edit to \<open>monthly\<close> is always
  refused, while \<open>create_reminder\<close> stores \<open>monthly\<close> as it is given.
\<close>

theorem edit_refuses_bad_time_or_frequency:
  "((\<exists>t. map_of updates ''time'' = Some t
         \<and> \<not> (\<exists>hs ms h m. t = PyStr (hs @ CHR '':'' # ms)
                  \<and> CHR '':'' \<notin> set hs \<and> CHR '':'' \<notin> set ms
                  \<and> py_int hs = Some h \<and> py_int ms = Some m
                  \<and> 0 \<le> h \<and> h \<le> 23 \<and> 0 \<le> m \<and> m \<le> 59))
      \<or> (\<exists>f. map_of updates ''frequency'' = Some f
               \<and> f \<notin> {PyStr ''once'', PyStr ''daily'', PyStr ''weekly''})
     \<longrightarrow> edit_reminder store uid reminder_id updates = (False, store))
   \<and> (map_of updates ''frequency'' = Some (PyStr ''monthly'')
     \<longrightarrow> edit_reminder store uid reminder_id updates = (False, store))
   \<and> (\<exists>store'. create_reminder store new_id stamp uid
                 [(''text'', txt), (''time'', tm), (''frequency'', PyStr ''monthly'')]
               = Inr (new_id, store')
             \<and> frequency (last (reminders_sheet store')) = PyStr ''monthly'')"
proof -
  have bad_time: "edit_reminder store uid reminder_id updates = (False, store)"
    if "map_of updates ''time'' = Some t" "\<not> hour_minute_form t" for t
    using that
    by (simp add: edit_reminder_def validate_time_is_hour_minute_form split: option.splits)
  have bad_frequency: "edit_reminder store uid reminder_id updates = (False, store)"
    if "map_of updates ''frequency'' = Some f"
       "f \<notin> {PyStr ''once'', PyStr ''daily'', PyStr ''weekly''}" for f
    using that py_eq_listed [of f]
    by (simp add: edit_reminder_def split: option.splits)
  have created: "\<exists>store'. create_reminder store new_id stamp uid
                   [(''text'', txt), (''time'', tm), (''frequency'', PyStr ''monthly'')]
                 = Inr (new_id, store')
               \<and> frequency (last (reminders_sheet store')) = PyStr ''monthly''"
    by (simp add: create_reminder_def numericise_monthly)
  show ?thesis
  proof (intro conjI impI)
    assume "(\<exists>t. map_of updates ''time'' = Some t
                \<and> \<not> (\<exists>hs ms h m. t = PyStr (hs @ CHR '':'' # ms)
                         \<and> CHR '':'' \<notin> set hs \<and> CHR '':'' \<notin> set ms
                         \<and> py_int hs = Some h \<and> py_int ms = Some m
                         \<and> 0 \<le> h \<and> h \<le> 23 \<and> 0 \<le> m \<and> m \<le> 59))
            \<or> (\<exists>f. map_of updates ''frequency'' = Some f
                    \<and> f \<notin> {PyStr ''once'', PyStr ''daily'', PyStr ''weekly''})"
    then show "edit_reminder store uid reminder_id updates = (False, store)"
    proof
      assume "\<exists>t. map_of updates ''time'' = Some t
                \<and> \<not> (\<exists>hs ms h m. t = PyStr (hs @ CHR '':'' # ms)
                         \<and> CHR '':'' \<notin> set hs \<and> CHR '':'' \<notin> set ms
                         \<and> py_int hs = Some h \<and> py_int ms = Some m
                         \<and> 0 \<le> h \<and> h \<le> 23 \<and> 0 \<le> m \<and> m \<le> 59)"
      then obtain t where "map_of updates ''time'' = Some t" "\<not> hour_minute_form t"
        unfolding hour_minute_form_iff by blast
      then show ?thesis by (rule bad_time)
    next
      assume "\<exists>f. map_of updates ''frequency'' = Some f
                \<and> f \<notin> {PyStr ''once'', PyStr ''daily'', PyStr ''weekly''}"
      then obtain f where "map_of updates ''frequency'' = Some f"
          "f \<notin> {PyStr ''once'', PyStr ''daily'', PyStr ''weekly''}"
        by blast
      then show ?thesis by (rule bad_frequency)
    qed
  next
    assume "map_of updates ''frequency'' = Some (PyStr ''monthly'')"
    then show "edit_reminder store uid reminder_id updates = (False, store)"
      by (rule bad_frequency) simp
  next
    show "\<exists>store'. create_reminder store new_id stamp uid
                    [(''text'', txt), (''time'', tm), (''frequency'', PyStr ''monthly'')]
                  = Inr (new_id, store')
                \<and> frequency (last (reminders_sheet store')) = PyStr ''monthly''"
      by (rule created)
  qed
qed

theorem edit_refuses_bad_time_or_frequency_witness:
  "\<not> (\<exists>hs ms h m. PyStr ''24:00'' = PyStr (hs @ CHR '':'' # ms)
          \<and> CHR '':'' \<notin> set hs \<and> CHR '':'' \<notin> set ms
          \<and> py_int hs = Some h \<and> py_int ms = Some m
          \<and> 0 \<le> h \<and> h \<le> 23 \<and> 0 \<le> m \<and> m \<le> 59)
   \<and> edit_reminder (sample_db (sample_reminder ''daily'' 15 ''UTC'')) 42 (PyStr ''7'')
        [(''time'', PyStr ''24:00'')]
      = (False, sample_db (sample_reminder ''daily'' 15 ''UTC''))
   \<and> edit_reminder (sample_db (sample_reminder ''daily'' 15 ''UTC'')) 42 (PyStr ''7'')
        [(''time'', PyStr (CHR 0x1C # ''7:30''))]
      = (False, sample_db (sample_reminder ''daily'' 15 ''UTC''))
   \<and> edit_reminder (sample_db (sample_reminder ''daily'' 15 ''UTC'')) 42 (PyStr ''7'')
        [(''frequency'', PyStr ''monthly'')]
      = (False, sample_db (sample_reminder ''daily'' 15 ''UTC''))
   \<and> fst (edit_reminder (sample_db (sample_reminder ''daily'' 15 ''UTC'')) 42 (PyStr ''7'')
        [(''time'', PyStr ''07:30'')])"
proof -
  let ?store = "sample_db (sample_reminder ''daily'' 15 ''UTC'')"
  let ?form = "\<lambda>t. \<exists>hs ms h m. t = PyStr (hs @ CHR '':'' # ms)
          \<and> CHR '':'' \<notin> set hs \<and> CHR '':'' \<notin> set ms
          \<and> py_int hs = Some h \<and> py_int ms = Some m
          \<and> 0 \<le> h \<and> h \<le> 23 \<and> 0 \<le> m \<and> m \<le> 59"
  have "\<not> hour_minute_form (PyStr ''24:00'')"
    by code_simp
  then have t1: "\<not> ?form (PyStr ''24:00'')"
    unfolding hour_minute_form_iff .
  have "\<not> hour_minute_form (PyStr (CHR 0x1C # ''7:30''))"
    by code_simp
  then have t2: "\<not> ?form (PyStr (CHR 0x1C # ''7:30''))"
    unfolding hour_minute_form_iff .
  have m1: "map_of [(''time'', PyStr ''24:00'')] ''time'' = Some (PyStr ''24:00'')"
    by simp
  have m2: "map_of [(''time'', PyStr (CHR 0x1C # ''7:30''))] ''time''
            = Some (PyStr (CHR 0x1C # ''7:30''))"
    by simp
  have f: "map_of [(''frequency'', PyStr ''monthly'')] ''frequency'' = Some (PyStr ''monthly'')"
    by simp
  have ok: "fst (edit_reminder ?store 42 (PyStr ''7'') [(''time'', PyStr ''07:30'')])"
    by code_simp
  have r1: "edit_reminder ?store 42 (PyStr ''7'') [(''time'', PyStr ''24:00'')] = (False, ?store)"
    using t1 m1
      edit_refuses_bad_time_or_frequency [of "[(''time'', PyStr ''24:00'')]" ?store 42 "PyStr ''7''"]
    by blast
  have r2: "edit_reminder ?store 42 (PyStr ''7'') [(''time'', PyStr (CHR 0x1C # ''7:30''))]
            = (False, ?store)"
    using t2 m2
      edit_refuses_bad_time_or_frequency
        [of "[(''time'', PyStr (CHR 0x1C # ''7:30''))]" ?store 42 "PyStr ''7''"]
    by blast
  have r3: "edit_reminder ?store 42 (PyStr ''7'') [(''frequency'', PyStr ''monthly'')]
            = (False, ?store)"
    using f
      edit_refuses_bad_time_or_frequency
        [of "[(''frequency'', PyStr ''monthly'')]" ?store 42 "PyStr ''7''"]
    by blast
  show ?thesis
    using t1 r1 r2 r3 ok by blast
qed


section \<open>Sleep requests and the active window\<close>

lemma stop_polling_noop:
  "is_active_hours p now \<or> \<not> running p \<Longrightarrow> stop_polling_if_needed p now reason = p"
  by (auto simp: stop_polling_if_needed_def)

lemma countdown_inside_window:
  "inactivity_countdown p nows = Some (Inr p') \<Longrightarrow> \<forall>t\<in>set nows. is_active_hours p t
   \<Longrightarrow> running p' = running p \<and> events p' = events p"
proof (induction nows)
  case Nil
  then show ?case by simp
next
  case (Cons t later)
  then show ?case
    by (auto simp: stop_polling_noop split: option.splits sum.splits if_splits)
qed

text \<open>
  C6. A sleep request made while the clock is inside the active window changes nothing:
  the receive loop stays as it was and no line is logged, whether the request comes from
  the window-end job (\<open>sleep_job\<close>) or from the inactivity countdown. A sleep request
  made while the loop is stopped changes nothing either.
\<close>

theorem sleep_refused_inside_window:
  "(is_active_hours p now
      \<longrightarrow> stop_polling_if_needed p now reason = p \<and> sleep_job p now = p)
   \<and> (\<not> running p
      \<longrightarrow> stop_polling_if_needed p now reason = p \<and> sleep_job p now = p)
   \<and> ((\<forall>t\<in>set nows. is_active_hours p t) \<and> inactivity_countdown p nows = Some (Inr p')
      \<longrightarrow> running p' = running p \<and> events p' = events p)"
  using countdown_inside_window [of p nows p']
  by (simp add: stop_polling_noop sleep_job_def)

theorem sleep_refused_inside_window_witness:
  "is_active_hours (sleeping\<lparr>running := True, last_activity_vn := Some (at 2024 5 13 7 20 0)\<rparr>)
     (at 2024 5 13 7 35 0)
   \<and> running (stop_polling_if_needed
                (sleeping\<lparr>running := True, last_activity_vn := Some (at 2024 5 13 7 20 0)\<rparr>)
                (at 2024 5 13 7 35 0) ''timeout'')
   \<and> running (sleep_job
                (sleeping\<lparr>running := True, last_activity_vn := Some (at 2024 5 13 7 20 0)\<rparr>)
                (at 2024 5 13 7 35 0))
   \<and> inactivity_countdown
        (sleeping\<lparr>running := True, last_activity_vn := Some (at 2024 5 13 7 20 0)\<rparr>)
        [at 2024 5 13 7 35 0]
      = Some (Inr (sleeping\<lparr>running := True, last_activity_vn := Some (at 2024 5 13 7 20 0),
                             inactivity_task := TaskDone\<rparr>))"
proof -
  let ?p = "sleeping\<lparr>running := True, last_activity_vn := Some (at 2024 5 13 7 20 0)\<rparr>"
  have h: "is_active_hours ?p (at 2024 5 13 7 35 0)"
    by code_simp
  have r: "running ?p"
    by (simp add: sleeping_def)
  have c: "inactivity_countdown ?p [at 2024 5 13 7 35 0]
           = Some (Inr (?p\<lparr>inactivity_task := TaskDone\<rparr>))"
    by code_simp
  show ?thesis
    using h r c sleep_refused_inside_window [of ?p "at 2024 5 13 7 35 0" "''timeout''" "[]" ?p]
          sleep_refused_inside_window [of ?p "at 2024 5 13 7 35 0" "''schedule''" "[]" ?p]
    by simp
qed

section \<open>The probe\<close>

lemma wakes_append: "wakes (xs @ ys) = wakes xs + wakes ys"
  by (simp add: wakes_def)

lemma tick_observes:
  assumes "\<not> is_active_hours p now" "\<not> running p" "get_updates (peek_args p) = Inr us" "us \<noteq> []"
  shows "running (peek_updates_job get_updates p now)"
    and "wakes (events (peek_updates_job get_updates p now)) = Suc (wakes (events p))"
    and "peek_offset (peek_updates_job get_updates p now) = Some (last us)"
  using assms
  by (simp_all add: peek_updates_job_def start_polling_if_needed_def register_activity_def
         schedule_inactivity_timer_def is_active_hours_def wakes_def Let_def)

lemma tick_noop:
  "running p \<or> is_active_hours p now \<or> get_updates (peek_args p) = Inr []
     \<or> (\<exists>err. get_updates (peek_args p) = Inl err)
   \<Longrightarrow> peek_updates_job get_updates p now = p"
  by (auto simp: peek_updates_job_def)

text \<open>
  C7. Let \<open>get_updates\<close> return only ids not below the offset it is given. A probe
  tick outside the window that finds the loop stopped and observes ids \<open>us\<close> starts the
  loop, logs exactly one wake line more and sets the cursor to the last id observed. A
  later tick from a state whose cursor is \<open>c\<close> (not 0: the code tests the truth value
  of the cursor, and Telegram's update ids are positive) asks from \<open>c + 1\<close> on, so every
  id it observes is above \<open>c\<close>, and when there is none it changes nothing. A tick that
  finds the loop running, or observes nothing, changes nothing.
\<close>

theorem probe_tick_wakes_once:
  assumes api: "\<forall>off us. get_updates (Some off) = Inr us \<longrightarrow> (\<forall>u\<in>set us. off \<le> u)"
  shows "(\<not> is_active_hours p now \<and> \<not> running p \<and> get_updates (peek_args p) = Inr us \<and> us \<noteq> []
            \<longrightarrow> running (peek_updates_job get_updates p now)
              \<and> wakes (events (peek_updates_job get_updates p now)) = Suc (wakes (events p))
              \<and> peek_offset (peek_updates_job get_updates p now) = Some (last us))
       \<and> (peek_offset q = Some c \<and> c \<noteq> 0 \<and> get_updates (peek_args q) = Inr us'
            \<longrightarrow> (\<forall>u\<in>set us'. c < u)
              \<and> (us' = [] \<longrightarrow> peek_updates_job get_updates q now' = q))
       \<and> (running p \<longrightarrow> peek_updates_job get_updates p now = p)
       \<and> (get_updates (peek_args p) = Inr [] \<longrightarrow> peek_updates_job get_updates p now = p)"
proof (intro conjI impI)
  assume h: "peek_offset q = Some c \<and> c \<noteq> 0 \<and> get_updates (peek_args q) = Inr us'"
  then have "get_updates (Some (c + 1)) = Inr us'"
    by (auto simp: peek_args_def)
  with api have "\<forall>u\<in>set us'. c + 1 \<le> u" by blast
  then show "\<forall>u\<in>set us'. c < u" by auto
next
  assume "peek_offset q = Some c \<and> c \<noteq> 0 \<and> get_updates (peek_args q) = Inr us'" and "us' = []"
  then show "peek_updates_job get_updates q now' = q"
    by (auto simp: tick_noop)
qed (simp_all add: tick_observes tick_noop)

theorem probe_tick_wakes_once_witness:
  "\<not> is_active_hours sleeping (at 2024 5 13 23 0 0)
   \<and> \<not> running sleeping
   \<and> pending_updates [1001] (peek_args sleeping) = Inr [1001]
   \<and> running (peek_updates_job (pending_updates [1001]) sleeping (at 2024 5 13 23 0 0))
   \<and> wakes (events (peek_updates_job (pending_updates [1001]) sleeping (at 2024 5 13 23 0 0)))
      = Suc (wakes (events sleeping))
   \<and> peek_offset (peek_updates_job (pending_updates [1001]) sleeping (at 2024 5 13 23 0 0))
      = Some (last [1001])
   \<and> pending_updates [1001] (peek_args (sleeping\<lparr>peek_offset := Some 1001\<rparr>)) = Inr []
   \<and> peek_updates_job (pending_updates [1001]) (sleeping\<lparr>peek_offset := Some 1001\<rparr>)
        (at 2024 5 13 23 0 15)
      = sleeping\<lparr>peek_offset := Some 1001\<rparr>"
proof -
  have api: "\<forall>off us. pending_updates [1001] (Some off) = Inr us \<longrightarrow> (\<forall>u\<in>set us. off \<le> u)"
    by (auto simp: pending_updates_def)
  have a: "\<not> is_active_hours sleeping (at 2024 5 13 23 0 0)"
    by code_simp
  have r: "\<not> running sleeping"
    by (simp add: sleeping_def)
  have f1: "pending_updates [1001] (peek_args sleeping) = Inr [1001]"
    by code_simp
  have f2: "pending_updates [1001] (peek_args (sleeping\<lparr>peek_offset := Some 1001\<rparr>)) = Inr []"
    by code_simp
  have c: "peek_offset (sleeping\<lparr>peek_offset := Some 1001\<rparr>) = Some 1001"
    by simp
  have ne: "[1001::int] \<noteq> []" "(1001::int) \<noteq> 0"
    by simp_all
  note t = probe_tick_wakes_once [OF api, of sleeping "at 2024 5 13 23 0 0" "[1001]"
             "sleeping\<lparr>peek_offset := Some 1001\<rparr>" 1001 "[]" "at 2024 5 13 23 0 15"]
  show ?thesis
    using a r f1 f2 c ne t by blast
qed


section \<open>Retiring a one-shot reminder\<close>

lemma try_remove_job_keys: "fst ` set (try_remove_job sched k) = fst ` set sched - {k}"
proof (cases "k \<in> fst ` set sched")
  case True
  have "set (map fst (AList.delete k sched)) = set (map fst sched) - {k}"
    by (simp only: delete_keys set_removeAll)
  with True show ?thesis by (simp add: try_remove_job_def remove_job_def)
next
  case False
  then show ?thesis by (simp add: try_remove_job_def remove_job_def)
qed

lemma remove_jobs_with_prefix_keys:
  "fst ` set (remove_jobs_with_prefix p ids sched)
   = fst ` set sched - {k \<in> set ids. startswith k p}"
proof (induction ids arbitrary: sched)
  case Nil
  then show ?case by simp
next
  case (Cons k ids)
  show ?case
    by (auto simp: Cons.IH try_remove_job_keys)
qed

lemma jobs_of_after_removal:
  "jobs_of (remove_jobs_with_prefix (job_prefix r) (map fst sched) sched) r = []"
proof -
  have "\<forall>k \<in> fst ` set (remove_jobs_with_prefix (job_prefix r) (map fst sched) sched).
          \<not> startswith k (job_prefix r)"
    by (auto simp: remove_jobs_with_prefix_keys)
  then show ?thesis
    by (auto simp: jobs_of_def filter_empty_conv)
qed

lemma digit_char_not_space: "n < 10 \<Longrightarrow> \<not> is_space (digit_char n)"
proof -
  assume "n < 10"
  then have "n \<in> {0,1,2,3,4,5,6,7,8,9}" by auto
  then show ?thesis
    by (auto simp: digit_char_def is_space_def)
qed

lemma str_nat_no_space: "\<forall>c\<in>set (str_nat n). \<not> is_space c"
proof (induction n rule: str_nat.induct)
  case (1 n)
  show ?case
  proof (cases "n < 10")
    case True
    then show ?thesis by (simp add: str_nat.simps [of n] digit_char_not_space)
  next
    case False
    then have "n mod 10 < 10" by simp
    with False 1 show ?thesis
      by (simp add: str_nat.simps [of n] digit_char_not_space)
  qed
qed

lemma str_int_no_space: "\<forall>c\<in>set (str_int i). \<not> is_space c"
  using str_nat_no_space by (auto simp: str_int_def is_space_def)

lemma dropWhile_none: "\<forall>c\<in>set s. \<not> P c \<Longrightarrow> dropWhile P s = s"
  by (cases s) auto

lemma strip_no_space: "\<forall>c\<in>set s. \<not> is_space c \<Longrightarrow> strip s = s"
  by (simp add: strip_def dropWhile_none)

lemma strip_str_int: "strip (str_int i) = str_int i"
  by (rule strip_no_space) (rule str_int_no_space)


lemma find_row_None: "find_row q rs = None \<Longrightarrow> \<forall>r\<in>set rs. py_str (rid r) \<noteq> q"
  by (induction rs) (auto split: if_splits)

lemma find_row_Some:
  "find_row q rs = Some i \<Longrightarrow> i < length rs \<and> py_str (rid (rs ! i)) = q"
proof (induction rs arbitrary: i)
  case Nil
  then show ?case by simp
next
  case (Cons r rs)
  then show ?case by (auto split: if_splits)
qed

lemma delete_rows_distinct:
  assumes "distinct (map f rows)" "i < length rows"
  shows "\<forall>r\<in>set (delete_rows i rows). f r \<noteq> f (rows ! i)"
proof -
  have "rows = take i rows @ rows ! i # drop (Suc i) rows"
    using assms(2) by (rule id_take_nth_drop)
  then have "distinct (map f (take i rows @ rows ! i # drop (Suc i) rows))"
    using assms(1) by simp
  then show ?thesis
    by (auto simp: delete_rows_def) (metis imageI)+
qed

lemma delete_reminder_removes_id:
  assumes "distinct (map (\<lambda>r. py_str (rid r)) (reminders_sheet store))"
  shows "\<forall>r\<in>set (reminders_sheet (snd (delete_reminder store reminder_id))).
           py_str (rid r) \<noteq> strip (py_str reminder_id)"
proof (cases "find_row (strip (py_str reminder_id)) (reminders_sheet store)")
  case None
  then show ?thesis
    using find_row_None [OF None] by (simp add: delete_reminder_def)
next
  case (Some i)
  from find_row_Some [OF Some]
  have i: "i < length (reminders_sheet store)"
    and q: "py_str (rid (reminders_sheet store ! i)) = strip (py_str reminder_id)"
    by simp_all
  from delete_rows_distinct [OF assms i] q Some show ?thesis
    by (simp add: delete_reminder_def)
qed

lemma rid_apply_last_sent: "rid (apply_updates [(''last_sent'', v)] r) = rid r"
  by (simp add: update_cell_def headers_def Let_def)

lemma map_update_same: "(map f xs)[i := f (xs ! i)] = map f xs"
  by (metis list_update_id map_update)

lemma log_reminder_sent_ids:
  "map (\<lambda>r. py_str (rid r)) (reminders_sheet (log_reminder_sent stamp store reminder_id uid))
   = map (\<lambda>r. py_str (rid r)) (reminders_sheet store)"
proof (cases "find_row (strip (py_str reminder_id)) (reminders_sheet store)")
  case None
  then show ?thesis
    by (simp add: log_reminder_sent_def update_reminder_def)
next
  case (Some i)
  let ?g = "\<lambda>r. py_str (rid r)"
  let ?rows = "reminders_sheet store"
  have "map ?g (?rows[i := apply_updates [(''last_sent'', PyStr stamp)] (?rows ! i)])
        = (map ?g ?rows)[i := ?g (?rows ! i)]"
    by (simp add: map_update rid_apply_last_sent del: apply_updates.simps)
  also have "\<dots> = map ?g ?rows"
    using map_update_same [of ?g ?rows i] by simp
  finally show ?thesis
    using Some by (simp add: log_reminder_sent_def update_reminder_def del: apply_updates.simps)
qed

lemma py_eq_PyStr: "py_eq f (PyStr s) \<Longrightarrow> f = PyStr s"
  by (cases f) auto

text \<open>
  C5. When the offset-0 job of a \<open>once\<close> reminder fires and the message is sent, no job
  whose id starts with the reminder's prefix is left, no row of the sheet has the
  reminder's id, and so no active-reminder listing holds it. The reminder has a numeric
  id and the ids of the sheet are distinct, as the data model says.
\<close>

theorem once_fired_is_retired:
  assumes once: "py_eq (frequency reminder) (PyStr ''once'')"
      and numeric: "rid reminder = PyInt n"
      and ids: "distinct (map (\<lambda>r. py_str (rid r)) (reminders_sheet (db st)))"
  shows "jobs_of (scheduler (send_reminder_job e True stamp st uid reminder 0)) reminder = []
       \<and> (\<forall>r\<in>set (reminders_sheet (db (send_reminder_job e True stamp st uid reminder 0))).
             py_str (rid r) \<noteq> py_str (rid reminder))
       \<and> (\<forall>r\<in>set (get_all_active_reminders (db (send_reminder_job e True stamp st uid reminder 0))).
             py_str (rid r) \<noteq> py_str (rid reminder))"
proof -
  let ?db1 = "log_reminder_sent stamp (db st) (rid reminder) uid"
  let ?st' = "send_reminder_job e True stamp st uid reminder 0"
  from once have freq: "frequency reminder = PyStr ''once''"
    by (rule py_eq_PyStr)
  have sched: "scheduler ?st'
               = remove_jobs_with_prefix (job_prefix reminder) (map fst (scheduler st)) (scheduler st)"
    by (simp add: send_reminder_job_def freq Let_def)
  have store: "db ?st' = snd (delete_reminder ?db1 (rid reminder))"
    by (simp add: send_reminder_job_def freq Let_def)
  have "distinct (map (\<lambda>r. py_str (rid r)) (reminders_sheet ?db1))"
    using ids by (simp only: log_reminder_sent_ids)
  then have gone: "\<forall>r\<in>set (reminders_sheet (db ?st')). py_str (rid r) \<noteq> py_str (rid reminder)"
    using delete_reminder_removes_id [of ?db1 "rid reminder"]
    by (simp add: store numeric strip_str_int)
  have "jobs_of (scheduler ?st') reminder = []"
    by (simp only: sched jobs_of_after_removal)
  moreover from gone
  have "\<forall>r\<in>set (get_all_active_reminders (db ?st')). py_str (rid r) \<noteq> py_str (rid reminder)"
    by (simp add: get_all_active_reminders_def)
  ultimately show ?thesis using gone by blast
qed

theorem once_fired_is_retired_witness:
  "py_eq (frequency (sample_reminder ''once'' 15 ''UTC'')) (PyStr ''once'')
   \<and> rid (sample_reminder ''once'' 15 ''UTC'') = PyInt 7
   \<and> distinct (map (\<lambda>r. py_str (rid r))
        (reminders_sheet (db (bot_with (env_at (at 2024 5 10 9 0 0))
                                (sample_reminder ''once'' 15 ''UTC'')))))
   \<and> jobs_of (scheduler (bot_with (env_at (at 2024 5 10 9 0 0)) (sample_reminder ''once'' 15 ''UTC'')))
        (sample_reminder ''once'' 15 ''UTC'')
      = [''reminder_7_dminus0'', ''reminder_7_dminus1'', ''reminder_7_dminus2'']
   \<and> jobs_of (scheduler (send_reminder_job (env_at (at 2024 5 15 7 35 1)) True ''2024-05-15T07:35:01''
                 (bot_with (env_at (at 2024 5 10 9 0 0)) (sample_reminder ''once'' 15 ''UTC''))
                 (PyInt 42) (sample_reminder ''once'' 15 ''UTC'') 0))
        (sample_reminder ''once'' 15 ''UTC'')
      = []
   \<and> get_all_active_reminders (db (send_reminder_job (env_at (at 2024 5 15 7 35 1)) True
                 ''2024-05-15T07:35:01''
                 (bot_with (env_at (at 2024 5 10 9 0 0)) (sample_reminder ''once'' 15 ''UTC''))
                 (PyInt 42) (sample_reminder ''once'' 15 ''UTC'') 0))
      = []"
proof -
  let ?r = "sample_reminder ''once'' 15 ''UTC''"
  let ?b = "bot_with (env_at (at 2024 5 10 9 0 0)) ?r"
  have h1: "py_eq (frequency ?r) (PyStr ''once'')"
    by (simp add: sample_reminder_def)
  have h2: "rid ?r = PyInt 7"
    by (simp add: sample_reminder_def)
  have h3: "distinct (map (\<lambda>r. py_str (rid r)) (reminders_sheet (db ?b)))"
    by (simp add: bot_with_def sample_db_def)
  have before: "jobs_of (scheduler ?b) ?r
                = [''reminder_7_dminus0'', ''reminder_7_dminus1'', ''reminder_7_dminus2'']"
    by code_simp
  have listing: "get_all_active_reminders (db (send_reminder_job (env_at (at 2024 5 15 7 35 1)) True
                   ''2024-05-15T07:35:01'' ?b (PyInt 42) ?r 0)) = []"
    by code_simp
  note after = once_fired_is_retired [OF h1 h2 h3, of "env_at (at 2024 5 15 7 35 1)"
                 "''2024-05-15T07:35:01''" "PyInt 42"]
  show ?thesis
    using h1 h2 h3 before listing after by blast
qed

section \<open>The next occurrence and the end of the month\<close>

lemma monthrange_bounds: "28 \<le> monthrange y m \<and> monthrange y m \<le> 31"
  by (simp add: monthrange_def)

lemma dt_total: "\<not> dt_le a b \<Longrightarrow> dt_less b a"
  by (auto simp: dt_le_def dt_less_def dt_fields_def)

lemma checked_Inr: "checked d = Inr d' \<Longrightarrow> d' = d"
  by (simp add: checked_def split: if_splits)

lemma once_missing_day_raises:
  assumes "rday r = PyInt d" "monthrange (year now) (month now) < d"
  shows "once_run_date now r = Inl ValueError"
  using assms
  by (simp add: once_run_date_def notify_hm_def replace_day_time_def checked_def)

lemma once_next_month_shorter_raises:
  assumes "rday r = PyInt d" "checked now = Inr now" "month now \<noteq> 12"
      and "1 \<le> d" "d \<le> monthrange (year now) (month now)"
      and "dt_le (now\<lparr>day := d, hour := 7, minute := 35, second := 0, microsecond := 0\<rparr>) now"
      and "monthrange (year now) (month now + 1) < d"
  shows "once_run_date now r = Inl ValueError"
  using assms
  by (simp add: once_run_date_def notify_hm_def replace_day_time_def checked_def split: if_splits)


lemma lex_less_head: "x < y \<Longrightarrow> lex_less (x # xs) (y # ys)"
  by simp

lemma later_month_is_later:
  "year a < year b \<or> (year a = year b \<and> month a < month b) \<Longrightarrow> dt_less a b"
  by (auto simp: dt_less_def dt_fields_def)

lemma compute_next_month_event_clamps:
  assumes zone: "timezone r = PyStr z" "tz_known e z"
      and now: "checked (clock e z) = Inr (clock e z)" "year (clock e z) < 9999"
      and d: "rday r = PyInt d" "1 \<le> d" "d \<le> 31"
  shows "\<exists>ev. compute_next_month_event e r = Inr ev
              \<and> dt_less (clock e z) ev
              \<and> checked ev = Inr ev
              \<and> day ev = min d (monthrange (year ev) (month ev))
              \<and> hour ev = 7 \<and> minute ev = 35 \<and> second ev = 0 \<and> microsecond ev = 0"
proof -
  let ?now = "clock e z"
  let ?last = "monthrange (year ?now) (month ?now)"
  let ?dd = "min d ?last"
  let ?first = "?now\<lparr>day := ?dd, hour := 7, minute := 35, second := 0, microsecond := 0\<rparr>"
  from now(1) have v: "1 \<le> year ?now" "1 \<le> month ?now" "month ?now \<le> 12"
    by (simp_all add: checked_def split: if_splits)
  have b: "28 \<le> ?last" "?last \<le> 31"
    using monthrange_bounds [of "year ?now" "month ?now"] by simp_all
  have first_ok: "checked ?first = Inr ?first"
    using v b d now(2) by (simp add: checked_def)
  have first: "(case replace_day_time ?now (PyInt d) 7 35 of
                  Inl ValueError \<Rightarrow>
                    checked (?now\<lparr>day := ?last, hour := 7, minute := 35, second := 0,
                                  microsecond := 0\<rparr>)
                | Inl err \<Rightarrow> Inl err
                | Inr x \<Rightarrow> Inr x) = Inr ?first"
  proof (cases "d \<le> ?last")
    case True
    then have "min d ?last = d" by simp
    with first_ok show ?thesis
      by (simp add: replace_day_time_def)
  next
    case False
    then have m: "min d ?last = ?last" by simp
    from False v d now(2) have "replace_day_time ?now (PyInt d) 7 35 = Inl ValueError"
      by (simp add: replace_day_time_def checked_def)
    with first_ok m show ?thesis by simp
  qed
  show ?thesis
  proof (cases "dt_le ?first ?now")
    case False
    then have "dt_less ?now ?first" by (rule dt_total)
    moreover have "compute_next_month_event e r = Inr ?first"
      using zone d first False
      by (simp add: compute_next_month_event_def notify_hm_def Let_def)
    ultimately show ?thesis using first_ok by simp
  next
    case True
    let ?y = "year ?now + (if month ?now = 12 then 1 else 0)"
    let ?m = "if month ?now = 12 then 1 else month ?now + 1"
    let ?ev = "?first\<lparr>year := ?y, month := ?m, day := min d (monthrange ?y ?m)\<rparr>"
    have bb: "28 \<le> monthrange ?y ?m" "monthrange ?y ?m \<le> 31"
      using monthrange_bounds [of ?y ?m] by simp_all
    have ev_ok: "checked ?ev = Inr ?ev"
      using v bb d now(2) by (simp add: checked_def)
    have "compute_next_month_event e r = Inr ?ev"
    proof (cases "month ?now = 12")
      case december: True
      with zone d first True ev_ok show ?thesis
        by (simp add: compute_next_month_event_def notify_hm_def Let_def)
    next
      case other: False
      with zone d first True ev_ok show ?thesis
        by (simp add: compute_next_month_event_def notify_hm_def Let_def)
    qed
    moreover have "dt_less ?now ?ev"
      by (rule later_month_is_later) (use v in auto)
    ultimately show ?thesis using ev_ok by simp
  qed
qed

text \<open>
  The \<open>once\<close> branch where it does move: the day exists in the current month, its
  notification time is not after \<open>now\<close>, and the day exists in the next month too.
\<close>

lemma once_rolls_to_next_month:
  assumes d: "rday r = PyInt d" "1 \<le> d" "d \<le> monthrange (year now) (month now)"
      and now: "checked now = Inr now" "year now < 9999"
      and passed: "dt_le (now\<lparr>day := d, hour := 7, minute := 35, second := 0, microsecond := 0\<rparr>) now"
      and fits: "d \<le> monthrange (if month now = 12 then year now + 1 else year now)
                              (if month now = 12 then 1 else month now + 1)"
  shows "\<exists>ev. once_run_date now r = Inr ev
              \<and> dt_less now ev
              \<and> day ev = d
              \<and> month ev = (if month now = 12 then 1 else month now + 1)
              \<and> year ev = (if month now = 12 then year now + 1 else year now)
              \<and> hour ev = 7 \<and> minute ev = 35 \<and> second ev = 0 \<and> microsecond ev = 0"
proof -
  let ?first = "now\<lparr>day := d, hour := 7, minute := 35, second := 0, microsecond := 0\<rparr>"
  from now(1) have v: "1 \<le> year now" "1 \<le> month now" "month now \<le> 12"
    by (simp_all add: checked_def split: if_splits)
  have first: "replace_day_time now (PyInt d) 7 35 = Inr ?first"
    using v d now(2) by (simp add: replace_day_time_def checked_def)
  show ?thesis
  proof (cases "month now = 12")
    case True
    let ?ev = "?first\<lparr>year := year now + 1, month := 1\<rparr>"
    have "once_run_date now r = Inr ?ev"
      using True d first passed fits v now(2)
      by (simp add: once_run_date_def notify_hm_def checked_def Let_def)
    moreover have "dt_less now ?ev"
      by (rule later_month_is_later) simp
    ultimately show ?thesis using True by simp
  next
    case False
    let ?ev = "?first\<lparr>month := month now + 1\<rparr>"
    have "once_run_date now r = Inr ?ev"
      using False d first passed fits v now(2)
      by (simp add: once_run_date_def notify_hm_def checked_def Let_def)
    moreover have "dt_less now ?ev"
      by (rule later_month_is_later) simp
    ultimately show ?thesis using False by simp
  qed
qed

text \<open>
  After a monthly on-time job has fired and the message is sent, the job of offset 0 is a
  date job at the next occurrence, which is after the clock reading of the callback.
\<close>

lemma monthly_on_time_job_rearmed_later:
  assumes zone: "timezone r = PyStr z" "tz_known e z"
      and now: "checked (clock e z) = Inr (clock e z)" "year (clock e z) < 9999"
      and d: "rday r = PyInt d" "1 \<le> d" "d \<le> 31"
      and monthly: "frequency r = PyStr ''monthly''"
  shows "\<exists>ev. map_of (scheduler (send_reminder_job e True stamp st uid r 0)) (job_key r 0)
               = Some \<lparr>job_trigger = DateTrigger ev z, job_args = (user_id r, r, 0)\<rparr>
             \<and> dt_less (clock e z) ev"
proof -
  from compute_next_month_event_clamps [OF zone now d]
  obtain ev where ev: "compute_next_month_event e r = Inr ev" "dt_less (clock e z) ev"
    by blast
  have "map_of (scheduler (send_reminder_job e True stamp st uid r 0)) (job_key r 0)
        = Some \<lparr>job_trigger = DateTrigger ev z, job_args = (user_id r, r, 0)\<rparr>"
    using ev(1) zone monthly
    by (simp add: send_reminder_job_def schedule_offset_job_def add_job_def Let_def update_conv')
  with ev(2) show ?thesis by blast
qed

text \<open>
  C3. A \<open>once\<close> reminder for day 31 scheduled on 10 April 2024: April has 30 days, the
  first \<open>replace\<close> of the \<open>once\<close> branch raises ValueError, the handler of the branch
  returns and no job is installed; the day is not clamped. For the same day and clock
  \<open>_compute_next_month_event\<close> does clamp, to 30 April.
\<close>

theorem once_day_31_not_clamped_in_april:
  "monthrange 2024 4 = 30
   \<and> once_run_date (at 2024 4 10 9 0 0) (sample_reminder ''once'' 31 ''Asia/Ho_Chi_Minh'')
       = Inl ValueError
   \<and> schedule_single_reminder (env_at (at 2024 4 10 9 0 0)) []
        (sample_reminder ''once'' 31 ''Asia/Ho_Chi_Minh'') = (None, [])
   \<and> compute_next_month_event (env_at (at 2024 4 10 9 0 0))
        (sample_reminder ''monthly'' 31 ''Asia/Ho_Chi_Minh'') = Inr (at 2024 4 30 7 35 0)"
  by code_simp

text \<open>
  C2. A \<open>once\<close> reminder for day 31 scheduled on 31 March 2024 at 08:00: day 31 exists
  in March and 07:35 has passed, but the move to the next month replaces the month with
  the day still 31, which raises ValueError before the clamp is reached; the handler of
  the branch returns and no job is installed.
\<close>

theorem once_day_31_not_moved_to_april:
  "replace_day_time (at 2024 3 31 8 0 0) (PyInt 31) 7 35 = Inr (at 2024 3 31 7 35 0)
   \<and> dt_le (at 2024 3 31 7 35 0) (at 2024 3 31 8 0 0)
   \<and> once_run_date (at 2024 3 31 8 0 0) (sample_reminder ''once'' 31 ''Asia/Ho_Chi_Minh'')
       = Inl ValueError
   \<and> schedule_single_reminder (env_at (at 2024 3 31 8 0 0)) []
        (sample_reminder ''once'' 31 ''Asia/Ho_Chi_Minh'') = (None, [])"
  by code_simp

text \<open>
  C4. The job ids of a reminder after \<open>_schedule_single_reminder\<close>, on an empty
  scheduler: none for a \<open>once\<close> reminder whose day the current month lacks, only the
  offset-0 id for a \<open>monthly\<close> reminder with an unknown zone name; three for a
  \<open>once\<close> reminder that schedules, one for a \<open>weekly\<close> reminder.
\<close>

theorem schedule_one_leaves_fewer_than_three_jobs:
  "jobs_of (snd (schedule_single_reminder (env_at (at 2024 4 10 9 0 0)) []
                   (sample_reminder ''once'' 31 ''Asia/Ho_Chi_Minh'')))
           (sample_reminder ''once'' 31 ''Asia/Ho_Chi_Minh'') = []
   \<and> jobs_of (snd (schedule_single_reminder (env_at (at 2024 4 10 9 0 0)) []
                   (sample_reminder ''monthly'' 15 ''Mars/Phobos'')))
           (sample_reminder ''monthly'' 15 ''Mars/Phobos'') = [''reminder_7_dminus0'']
   \<and> jobs_of (snd (schedule_single_reminder (env_at (at 2024 4 10 9 0 0)) []
                   (sample_reminder ''once'' 15 ''Asia/Ho_Chi_Minh'')))
           (sample_reminder ''once'' 15 ''Asia/Ho_Chi_Minh'')
       = [''reminder_7_dminus0'', ''reminder_7_dminus1'', ''reminder_7_dminus2'']
   \<and> jobs_of (snd (schedule_single_reminder (env_at (at 2024 4 10 9 0 0)) []
                   (sample_reminder ''weekly'' 15 ''Asia/Ho_Chi_Minh'')))
           (sample_reminder ''weekly'' 15 ''Asia/Ho_Chi_Minh'') = [''reminder_7_dminus0'']"
  by code_simp

text \<open>
  C8. A \<open>monthly\<close> reminder whose zone name pytz does not know: the zone lookup of
  \<open>_compute_next_month_event\<close> and of \<open>_schedule_offset_job\<close> raises
  UnknownTimeZoneError with no fallback, so \<open>_schedule_single_reminder\<close> installs the
  offset-0 job only, and \<open>_reminder_due_today\<close> answers False on the due date itself,
  where the same reminder with a known zone is due.
\<close>

theorem unknown_zone_is_not_defaulted:
  "\<not> tz_known (env_at (at 2024 5 15 6 0 0)) ''Mars/Phobos''
   \<and> compute_next_month_event (env_at (at 2024 5 15 6 0 0))
        (sample_reminder ''monthly'' 15 ''Mars/Phobos'') = Inl UnknownTimeZoneError
   \<and> schedule_offset_job (env_at (at 2024 5 15 6 0 0)) []
        (sample_reminder ''monthly'' 15 ''Mars/Phobos'') (at 2024 5 14 7 35 0) 1
       = (Some UnknownTimeZoneError, [])
   \<and> map fst (snd (schedule_single_reminder (env_at (at 2024 5 15 6 0 0)) []
                      (sample_reminder ''monthly'' 15 ''Mars/Phobos'')))
       = [''reminder_7_dminus0'']
   \<and> reminder_due_today (env_at (at 2024 5 15 6 0 0)) (\<lambda>d. 2)
        (sample_reminder ''monthly'' 15 ''Mars/Phobos'') = Inr False
   \<and> reminder_due_today (env_at (at 2024 5 15 6 0 0)) (\<lambda>d. 2)
        (sample_reminder ''monthly'' 15 ''Asia/Ho_Chi_Minh'') = Inr True"
  by code_simp

text \<open>
  C1. A \<open>monthly\<close> reminder for day 15, scheduled on 1 May 2024: its offset-2 job runs
  on 13 May at 07:35:00. When the callback of that job runs one second later and the
  message is sent, the next occurrence it computes is still 15 May, and the offset-2 job
  it installs runs on 13 May at 07:35:00 again: the instant that just fired, not a later
  one.
\<close>

theorem monthly_offset_rearmed_at_fired_instant:
  "map_of (scheduler (bot_with (env_at (at 2024 5 1 9 0 0))
                        (sample_reminder ''monthly'' 15 ''Asia/Ho_Chi_Minh'')))
          ''reminder_7_dminus2''
     = Some \<lparr>job_trigger = DateTrigger (at 2024 5 13 7 35 0) ''Asia/Ho_Chi_Minh'',
             job_args = (PyInt 42, sample_reminder ''monthly'' 15 ''Asia/Ho_Chi_Minh'', 2)\<rparr>
   \<and> map_of (scheduler (send_reminder_job (env_at (at 2024 5 13 7 35 1)) True ''2024-05-13T07:35:01''
                          (bot_with (env_at (at 2024 5 1 9 0 0))
                             (sample_reminder ''monthly'' 15 ''Asia/Ho_Chi_Minh''))
                          (PyInt 42) (sample_reminder ''monthly'' 15 ''Asia/Ho_Chi_Minh'') 2))
          ''reminder_7_dminus2''
     = Some \<lparr>job_trigger = DateTrigger (at 2024 5 13 7 35 0) ''Asia/Ho_Chi_Minh'',
             job_args = (PyInt 42, sample_reminder ''monthly'' 15 ''Asia/Ho_Chi_Minh'', 2)\<rparr>
   \<and> \<not> dt_less (at 2024 5 13 7 35 0) (at 2024 5 13 7 35 0)"
  by code_simp

end
